theory Spec2Isabelle
  imports Complex_Main "HOL-Library.AList" "HOL-Library.Log_Nat"
begin

section \<open>JavaScript values\<close>

text \<open>
  The dashboard receives its data from \<^verbatim>\<open>response.json()\<close>, whose result is untyped:
  the interfaces of \<^verbatim>\<open>page.tsx\<close> are erased at run time. The model therefore works on
  dynamic values. A number is an IEEE binary64 value: a finite one is represented by the
  rational it denotes, but for minus zero, which has a constructor of its own, so that
  \<open>Fin 0\<close> is \<open>+0\<close>. Equality of the datatype is the relation of \<^verbatim>\<open>Object.is\<close>: it has
  \<^verbatim>\<open>NaN\<close> equal to itself and tells the two zeros apart.
\<close>

datatype jsnum = NaN | PosInf | NegInf | NegZero | Fin rat

datatype jsval =
    Undefined
  | Null
  | Bool bool
  | Num jsnum
  | Str string
  | Arr "jsval list"
  | Obj "(string \<times> jsval) list"

text \<open>What a \<^verbatim>\<open>throw\<close> or a rejected promise carries.\<close>

datatype exn = AbortError | TypeError | SyntaxError

text \<open>
  An object is a list of fields, a new key going to the end as in an object literal
  with a spread: \<^verbatim>\<open>{...prev, [k]: v}\<close> is \<open>AList.update k v prev\<close>.
\<close>

type_synonym 'v dict = "(string \<times> 'v) list"

text \<open>
  \<^verbatim>\<open>v.k\<close>: a \<^verbatim>\<open>TypeError\<close> on \<^verbatim>\<open>undefined\<close> and \<^verbatim>\<open>null\<close>, the field of an object,
  and \<^verbatim>\<open>undefined\<close> otherwise. The last equation is right for the property names the
  program reads (\<^verbatim>\<open>network\<close>, \<^verbatim>\<open>download\<close>, \<^verbatim>\<open>cpu\<close>, ...): none of them is a
  built-in property of a number, a string, a boolean or an array.
\<close>

fun getProp :: "jsval \<Rightarrow> string \<Rightarrow> exn + jsval" where
  "getProp Undefined k = Inl TypeError"
| "getProp Null k = Inl TypeError"
| "getProp (Obj props) k = Inr (case map_of props k of None \<Rightarrow> Undefined | Some v \<Rightarrow> v)"
| "getProp v k = Inr Undefined"

text \<open>\<^verbatim>\<open>v?.k\<close>: as \<^verbatim>\<open>v.k\<close>, but \<^verbatim>\<open>undefined\<close> where \<^verbatim>\<open>v.k\<close> throws.\<close>

definition optChain :: "jsval \<Rightarrow> string \<Rightarrow> jsval" where
  "optChain v k = (case getProp v k of Inl e \<Rightarrow> Undefined | Inr w \<Rightarrow> w)"

text \<open>Truthiness: what \<^verbatim>\<open>!v\<close>, \<^verbatim>\<open>v ? a : b\<close>, \<^verbatim>\<open>if (v)\<close> and \<^verbatim>\<open>v || w\<close> test.\<close>

fun ToBoolean :: "jsval \<Rightarrow> bool" where
  "ToBoolean Undefined = False"
| "ToBoolean Null = False"
| "ToBoolean (Bool b) = b"
| "ToBoolean (Num n) = (n \<noteq> NaN \<and> n \<noteq> Fin 0 \<and> n \<noteq> NegZero)"
| "ToBoolean (Str s) = (s \<noteq> [])"
| "ToBoolean (Arr xs) = True"
| "ToBoolean (Obj props) = True"

definition logicalOr :: "jsval \<Rightarrow> jsval \<Rightarrow> jsval" where
  "logicalOr a b = (if ToBoolean a then a else b)"

text \<open>
  \<^verbatim>\<open>xs.slice(-n)\<close>: the elements from index \<open>max (length xs - n) 0\<close> on (the
  subtraction on \<open>nat\<close> stops at \<open>0\<close>).
\<close>

definition slice_last :: "nat \<Rightarrow> 'a list \<Rightarrow> 'a list" where
  "slice_last n xs = drop (length xs - n) xs"

section \<open>The network history (page.tsx)\<close>

record NetworkHistoryEntry =
  time :: string
  download :: jsval
  upload :: jsval

type_synonym history = "NetworkHistoryEntry list dict"

text \<open>
  \<^verbatim>\<open>cleanupNetworkHistory\<close>: the state updater it passes to \<^verbatim>\<open>setNetworkHistory\<close>. The
  \<^verbatim>\<open>for ... in\<close> loop visits the keys of the copy; \<open>cleanup_step\<close> is its body.
\<close>

definition cleanup_step :: "string \<Rightarrow> history \<Rightarrow> history" where
  "cleanup_step serverIp newHistory =
     (case map_of newHistory serverIp of
        None \<Rightarrow> newHistory
      | Some entries \<Rightarrow>
          if length entries > 30
          then AList.update serverIp (slice_last 30 entries) newHistory
          else newHistory)"

definition cleanupNetworkHistory :: "history \<Rightarrow> history" where
  "cleanupNetworkHistory prev = fold cleanup_step (map fst prev) prev"

text \<open>
  \<^verbatim>\<open>updateNetworkHistory\<close>: the state updater it passes to \<^verbatim>\<open>setNetworkHistory\<close>;
  \<open>now\<close> is the string \<^verbatim>\<open>new Date().toLocaleTimeString(...)\<close> gave.
\<close>

definition updateNetworkHistory :: "string \<Rightarrow> string \<Rightarrow> jsval \<Rightarrow> history \<Rightarrow> history" where
  "updateNetworkHistory now serverIp networkData prev =
     (let serverHistory = (case map_of prev serverIp of None \<Rightarrow> [] | Some entries \<Rightarrow> entries);
          newHistory = serverHistory @
            [\<lparr>time = now,
              download = logicalOr (optChain networkData ''download'') (Num (Fin 0)),
              upload = logicalOr (optChain networkData ''upload'') (Num (Fin 0))\<rparr>]
      in AList.update serverIp (slice_last 30 newHistory) prev)"

text \<open>What the page reads for a host: \<^verbatim>\<open>networkHistory[server.ip] || []\<close>.\<close>

definition readHistory :: "history \<Rightarrow> string \<Rightarrow> NetworkHistoryEntry list" where
  "readHistory networkHistory serverIp =
     (case map_of networkHistory serverIp of None \<Rightarrow> [] | Some entries \<Rightarrow> entries)"

text \<open>
  A sequence of calls of \<^verbatim>\<open>updateNetworkHistory\<close>, each with the time string, the host
  and the network data it got, applied in order to the history state.
\<close>

type_synonym append_call = "string \<times> string \<times> jsval"

definition appendPoint :: "history \<Rightarrow> append_call \<Rightarrow> history" where
  "appendPoint prev c = (case c of (now, serverIp, networkData) \<Rightarrow>
     updateNetworkHistory now serverIp networkData prev)"

definition pointOf :: "append_call \<Rightarrow> NetworkHistoryEntry" where
  "pointOf c = (case c of (now, serverIp, networkData) \<Rightarrow>
     \<lparr>time = now,
      download = logicalOr (optChain networkData ''download'') (Num (Fin 0)),
      upload = logicalOr (optChain networkData ''upload'') (Num (Fin 0))\<rparr>)"

definition pointsFor :: "string \<Rightarrow> append_call list \<Rightarrow> NetworkHistoryEntry list" where
  "pointsFor serverIp calls = map pointOf (filter (\<lambda>c. fst (snd c) = serverIp) calls)"

section \<open>The poller (page.tsx)\<close>

record Server =
  name :: string
  ip :: string
  type :: string

text \<open>
  What the network does to one \<^verbatim>\<open>fetch(url, {signal})\<close>: after \<open>latency\<close> milliseconds
  the promise settles, rejected (a transport failure: DNS, refused connection, TLS) or
  resolved with a response, of which the program reads \<^verbatim>\<open>ok\<close> and \<^verbatim>\<open>json()\<close>. The body
  is \<open>None\<close> when it is not JSON (\<^verbatim>\<open>json()\<close> rejects), and reading it takes \<open>json_ms\<close>
  milliseconds (a body that never arrives is told apart below, by \<open>stalled\<close>).
\<close>

datatype fetch_result = Rejects | Responds bool "jsval option"

record fetch_outcome =
  latency :: nat
  result :: fetch_result
  json_ms :: nat

text \<open>
  The world outside the page: the outcome of a fetch issued at a time (milliseconds) to a
  URL, and the string \<^verbatim>\<open>toLocaleTimeString\<close> gives for a time.
\<close>

record env =
  fetch :: "nat \<Rightarrow> string \<Rightarrow> fetch_outcome"
  toLocaleTimeString :: "nat \<Rightarrow> string"

text \<open>
  The state one round of \<^verbatim>\<open>fetchServerData\<close> works on: its local \<^verbatim>\<open>newData\<close>, the
  \<^verbatim>\<open>networkHistory\<close> state (the updaters passed to \<^verbatim>\<open>setNetworkHistory\<close> run in the
  order of the calls) and the time, which advances while the function awaits.
\<close>

record poll_state =
  newData :: "jsval dict"
  networkHistory :: history
  clock :: nat

definition errorMarker :: "string \<Rightarrow> jsval" where
  "errorMarker msg = Obj [(''error'', Str msg)]"

text \<open>
  The \<^verbatim>\<open>try\<close> block of the loop body, for one server. It returns the exception that
  left it, if any, with the state at that point. The timer set before the fetch aborts
  it at 5000 ms (the promise rejects with an \<^verbatim>\<open>AbortError\<close>); a fetch that settles
  earlier clears the timer, so reading the body is not bounded: the block is given here
  for a body read that ends, and \<open>pollRound\<close> below adds the one that does not.
\<close>

definition systemUrl :: "Server \<Rightarrow> string" where
  "systemUrl server = ''https://'' @ ip server @ ''/api/system''"

definition try_block :: "env \<Rightarrow> Server \<Rightarrow> poll_state \<Rightarrow> exn option \<times> poll_state" where
  "try_block e server s =
     (let url = systemUrl server;
          out = fetch e (clock s) url
      in if 5000 \<le> latency out then (Some AbortError, s\<lparr>clock := clock s + 5000\<rparr>)
         else
           let s1 = s\<lparr>clock := clock s + latency out\<rparr> in
           (case result out of
              Rejects \<Rightarrow> (Some TypeError, s1)
            | Responds ok body \<Rightarrow>
                if ok then
                  (let s2 = s1\<lparr>clock := clock s1 + json_ms out\<rparr> in
                   case body of
                     None \<Rightarrow> (Some SyntaxError, s2)
                   | Some serverData \<Rightarrow>
                       (let s3 = s2\<lparr>newData := AList.update (ip server) serverData (newData s2)\<rparr> in
                        case getProp serverData ''network'' of
                          Inl err \<Rightarrow> (Some err, s3)
                        | Inr network \<Rightarrow>
                            (None, s3\<lparr>networkHistory :=
                               updateNetworkHistory (toLocaleTimeString e (clock s3))
                                 (ip server) network (networkHistory s3)\<rparr>)))
                else
                  (None, s1\<lparr>newData :=
                     AList.update (ip server) (errorMarker ''Failed to fetch'') (newData s1)\<rparr>)))"

text \<open>One iteration of the loop: the \<^verbatim>\<open>try\<close> block and its \<^verbatim>\<open>catch\<close>.\<close>

definition poll_host :: "env \<Rightarrow> Server \<Rightarrow> poll_state \<Rightarrow> poll_state" where
  "poll_host e server s =
     (case try_block e server s of
        (None, s') \<Rightarrow> s'
      | (Some error, s') \<Rightarrow>
          s'\<lparr>newData :=
            AList.update (ip server) (errorMarker ''Connection failed'') (newData s')\<rparr>)"

text \<open>
  \<^verbatim>\<open>fetchServerData\<close>: \<^verbatim>\<open>for (const server of servers)\<close> with an \<^verbatim>\<open>await\<close> in its body,
  so an iteration starts when the one before it has finished. The \<open>newData\<close> of the
  result is what \<^verbatim>\<open>setServersData\<close> publishes.
\<close>

definition fetchServerData :: "env \<Rightarrow> Server list \<Rightarrow> history \<Rightarrow> nat \<Rightarrow> poll_state" where
  "fetchServerData e servers hist now =
     fold (poll_host e) servers \<lparr>newData = [], networkHistory = hist, clock = now\<rparr>"

text \<open>
  A body that never arrives. The outcome of a fetch has the body read end, after
  \<open>json_ms\<close> milliseconds. It may also never end: the headers of an ok response arrive
  before the timer fires, line 162 clears the timer, and \<^verbatim>\<open>await response.json()\<close>
  (line 165) waits for a body the host never completes, with nothing left to reject
  that promise. \<open>stalled t url\<close> says so of the response to the fetch issued at time \<open>t\<close>
  to \<open>url\<close>. The iteration that reads such a body (\<open>readsBody\<close>: the fetch resolved
  before the timer fired, with an ok response) never ends: the loop polls no later
  host and does not reach \<^verbatim>\<open>setServersData\<close> (line 176). \<open>None\<close> is the round that
  never returns, and \<open>publishedData\<close> is the argument of \<^verbatim>\<open>setServersData\<close>.
\<close>

definition readsBody :: "fetch_outcome \<Rightarrow> bool" where
  "readsBody out =
     (latency out < 5000 \<and> (case result out of Rejects \<Rightarrow> False | Responds ok body \<Rightarrow> ok))"

fun pollRound ::
  "(nat \<Rightarrow> string \<Rightarrow> bool) \<Rightarrow> env \<Rightarrow> Server list \<Rightarrow> poll_state \<Rightarrow> poll_state option" where
  "pollRound stalled e [] s = Some s"
| "pollRound stalled e (server # rest) s =
     (if readsBody (fetch e (clock s) (systemUrl server)) \<and> stalled (clock s) (systemUrl server)
      then None
      else pollRound stalled e rest (poll_host e server s))"

definition publishedData ::
  "(nat \<Rightarrow> string \<Rightarrow> bool) \<Rightarrow> env \<Rightarrow> Server list \<Rightarrow> history \<Rightarrow> nat \<Rightarrow> jsval dict option" where
  "publishedData stalled e servers hist now =
     map_option newData
       (pollRound stalled e servers \<lparr>newData = [], networkHistory = hist, clock = now\<rparr>)"

section \<open>The presentation helpers (page.tsx)\<close>

text \<open>
  The interfaces \<^verbatim>\<open>Temperature\<close> and \<^verbatim>\<open>Fan\<close> of \<^verbatim>\<open>page.tsx\<close>, which type the arguments
  of the two helpers; an optional field is an \<open>option\<close>, \<open>None\<close> when it is absent.
\<close>

record Temperature =
  temp_cpu :: "jsnum option"
  temp_rp1 :: "jsnum option"
  temp_ssd :: "jsnum option"

record Fan =
  fan_cpu :: jsnum
  fan_case1 :: jsnum
  fan_case2 :: jsnum

text \<open>
  What a helper returns: a string literal, or a template literal \<^verbatim>\<open>`${v}unit`\<close>, kept as
  the interpolated value and the text after it.
\<close>

datatype display = Literal string | Template "jsnum option" string

text \<open>The test \<^verbatim>\<open>temperature.cpu ? ... : ...\<close> on an optional number.\<close>

definition truthyReading :: "jsnum option \<Rightarrow> bool" where
  "truthyReading r = (case r of None \<Rightarrow> False | Some n \<Rightarrow> ToBoolean (Num n))"

text \<open>The degree sign (code unit \<open>0xB0\<close>) and \<^verbatim>\<open>C\<close>.\<close>

definition degreesC :: string where
  "degreesC = [CHR 0xB0, CHR ''C'']"

text \<open>\<^verbatim>\<open>getTemperatureDisplay\<close>; the result \<open>None\<close> is \<^verbatim>\<open>null\<close>.\<close>

definition getTemperatureDisplay :: "Temperature option \<Rightarrow> string \<Rightarrow> display option" where
  "getTemperatureDisplay temperature type' =
     (case temperature of
        None \<Rightarrow> None
      | Some t \<Rightarrow>
          if type' = ''n95'' then
            (if truthyReading (temp_cpu t) then Some (Template (temp_cpu t) degreesC)
             else Some (Literal ''N/A''))
          else if truthyReading (temp_cpu t) then Some (Template (temp_cpu t) degreesC)
          else if truthyReading (temp_rp1 t) then Some (Template (temp_rp1 t) degreesC)
          else if truthyReading (temp_ssd t) then Some (Template (temp_ssd t) degreesC)
          else Some (Literal ''N/A''))"

text \<open>\<^verbatim>\<open>x > 0\<close> on a number: false for \<^verbatim>\<open>NaN\<close> and for both zeros.\<close>

fun greaterThanZero :: "jsnum \<Rightarrow> bool" where
  "greaterThanZero NaN = False"
| "greaterThanZero PosInf = True"
| "greaterThanZero NegInf = False"
| "greaterThanZero NegZero = False"
| "greaterThanZero (Fin q) = (0 < q)"

text \<open>\<^verbatim>\<open>getFanSpeed\<close>.\<close>

definition getFanSpeed :: "Fan option \<Rightarrow> display option" where
  "getFanSpeed fan =
     (case fan of
        None \<Rightarrow> None
      | Some f \<Rightarrow>
          if greaterThanZero (fan_cpu f) then Some (Template (Some (fan_cpu f)) ''RPM'')
          else if greaterThanZero (fan_case1 f) then Some (Template (Some (fan_case1 f)) ''RPM'')
          else if greaterThanZero (fan_case2 f) then Some (Template (Some (fan_case2 f)) ''RPM'')
          else None)"

section \<open>Numbers: \<^verbatim>\<open>toFixed(2)\<close> and \<^verbatim>\<open>Number\<close>\<close>

text \<open>\<open>ilog2 q\<close> is \<open>\<lfloor>log\<^sub>2 q\<rfloor>\<close> for a positive rational.\<close>

definition ilog2 :: "rat \<Rightarrow> int" where
  "ilog2 q = (case quotient_of q of (a, b) \<Rightarrow>
     (let d = bitlen a - bitlen b in if 2 powi d \<le> q then d else d - 1))"

definition round_half_even :: "rat \<Rightarrow> int" where
  "round_half_even x =
     (let f = \<lfloor>x\<rfloor>; r = x - of_int f
      in if r < 1 / 2 then f else if 1 / 2 < r then f + 1 else if even f then f else f + 1)"

text \<open>
  The Number value of a decimal numeral, given by its sign and by the rational \<open>p\<close> its
  digits denote (\<open>0 \<le> p\<close>): the binary64 value nearest to \<open>p\<close>, the one with the even
  significand when two are equally near, and an infinity from \<open>2 ^ 1024\<close> on, with the
  sign of the numeral; a numeral whose digits denote 0, or round to it, gives the zero
  of its sign. The spacing of the binary64 values around \<open>p\<close> is \<open>2 powi (e - 52)\<close>, with
  \<open>e\<close> the exponent of \<open>p\<close> and \<open>- 1022\<close> for the subnormal values. This is the correctly
  rounded conversion of a decimal numeral, which ECMAScript requires of numerals of up
  to 20 significant digits and engines perform on longer ones as well.
\<close>

definition numberValue :: "bool \<Rightarrow> rat \<Rightarrow> jsnum" where
  "numberValue negative p =
     (if p = 0 then (if negative then NegZero else Fin 0)
      else
        let e = max (ilog2 p) (- 1022);
            u = 2 powi (e - 52);
            r = of_int (round_half_even (p / u)) * u
        in if 2 ^ 1024 \<le> r then (if negative then NegInf else PosInf)
           else if r = 0 then (if negative then NegZero else Fin 0)
           else Fin (if negative then - r else r))"

text \<open>
  The text \<^verbatim>\<open>x.toFixed(2)\<close> returns, by what it denotes: \<open>Fixed negative p\<close> is the
  decimal numeral with two fraction digits whose digits denote \<open>p\<close>, after a minus sign
  when \<open>negative\<close> holds, and \<open>Shortest q\<close> is the text \<^verbatim>\<open>String(x)\<close> of a finite \<open>x\<close>, which
  \<^verbatim>\<open>toFixed\<close> returns from \<open>10 ^ 21\<close> on and which \<^verbatim>\<open>Number\<close> reads back as \<open>x\<close>. Below
  \<open>10 ^ 21\<close> the digits are those of \<open>n / 100\<close> for the integer \<open>n\<close> nearest to \<open>100 * \<bar>x\<bar>\<close>,
  the larger one when two are equally near, and the minus sign is there when \<open>x < 0\<close>,
  whatever \<open>n\<close> is: \<^verbatim>\<open>(-0.001).toFixed(2)\<close> is \<^verbatim>\<open>"-0.00"\<close>, and \<^verbatim>\<open>(-0).toFixed(2)\<close> is
  \<^verbatim>\<open>"0.00"\<close>, minus zero not being less than 0.
\<close>

datatype numeral_text =
  NaN_text | Infinity_text | MinusInfinity_text | Fixed bool rat | Shortest rat

fun toFixed2 :: "jsnum \<Rightarrow> numeral_text" where
  "toFixed2 NaN = NaN_text"
| "toFixed2 PosInf = Infinity_text"
| "toFixed2 NegInf = MinusInfinity_text"
| "toFixed2 NegZero = Fixed False 0"
| "toFixed2 (Fin q) =
     (if 10 ^ 21 \<le> \<bar>q\<bar> then Shortest q
      else Fixed (q < 0) (of_int \<lfloor>\<bar>q\<bar> * 100 + 1 / 2\<rfloor> / 100))"

fun Number :: "numeral_text \<Rightarrow> jsnum" where
  "Number NaN_text = NaN"
| "Number Infinity_text = PosInf"
| "Number MinusInfinity_text = NegInf"
| "Number (Fixed negative p) = numberValue negative p"
| "Number (Shortest q) = Fin q"

text \<open>
  Two equalities of the language on numbers, beside \<^verbatim>\<open>Object.is\<close>: \<^verbatim>\<open>SameValueZero\<close>
  (of \<^verbatim>\<open>Array.prototype.includes\<close>, \<^verbatim>\<open>Map\<close> and \<^verbatim>\<open>Set\<close>), which is equality of the
  numbers denoted, the two zeros being the same number and \<^verbatim>\<open>NaN\<close> the same as itself;
  and \<^verbatim>\<open>===\<close>, which differs from it on \<^verbatim>\<open>NaN\<close> only.
\<close>

definition sameValueZero :: "jsnum \<Rightarrow> jsnum \<Rightarrow> bool" where
  "sameValueZero x y =
     (x = y \<or> (x = Fin 0 \<or> x = NegZero) \<and> (y = Fin 0 \<or> y = NegZero))"

definition strictEquals :: "jsnum \<Rightarrow> jsnum \<Rightarrow> bool" where
  "strictEquals x y = (x \<noteq> NaN \<and> y \<noteq> NaN \<and> sameValueZero x y)"

section \<open>The normalizer (numberFormat.ts)\<close>

text \<open>Sequencing of computations that may throw.\<close>

definition andThen :: "exn + 'a \<Rightarrow> ('a \<Rightarrow> exn + 'b) \<Rightarrow> exn + 'b" where
  "andThen m f = (case m of Inl e \<Rightarrow> Inl e | Inr x \<Rightarrow> f x)"

text \<open>
  \<^verbatim>\<open>formatNumber\<close> and \<^verbatim>\<open>formatTemperature\<close>. Only a number has a \<^verbatim>\<open>toFixed\<close> method:
  the call throws a \<^verbatim>\<open>TypeError\<close> on every other value.
\<close>

definition formatNumber :: "jsval \<Rightarrow> exn + jsval" where
  "formatNumber num = (case num of Num x \<Rightarrow> Inr (Num (Number (toFixed2 x))) | _ \<Rightarrow> Inl TypeError)"

definition formatTemperature :: "jsval \<Rightarrow> exn + jsval" where
  "formatTemperature temp =
     (if temp = Str ''N/A'' then Inr (Str ''N/A'')
      else case temp of Num x \<Rightarrow> Inr (Num (Number (toFixed2 x))) | _ \<Rightarrow> Inl TypeError)"

text \<open>\<^verbatim>\<open>data.a.b\<close> and \<^verbatim>\<open>data.a.b.c\<close>.\<close>

definition path2 :: "jsval \<Rightarrow> string \<Rightarrow> string \<Rightarrow> exn + jsval" where
  "path2 data a b = andThen (getProp data a) (\<lambda>x. getProp x b)"

definition path3 :: "jsval \<Rightarrow> string \<Rightarrow> string \<Rightarrow> string \<Rightarrow> exn + jsval" where
  "path3 data a b c = andThen (path2 data a b) (\<lambda>x. getProp x c)"

text \<open>
  Modelled from the spec: \<^verbatim>\<open>isX86TemperatureInfo\<close> of \<^verbatim>\<open>@/types/system\<close>, which is not
  among the sources. The spec has the variant selected by field presence, the fields
  \<^verbatim>\<open>cpu\<close>, \<^verbatim>\<open>gpu\<close> and \<^verbatim>\<open>motherboard\<close> making the x86 variant. \<^verbatim>\<open>formatServerData\<close>
  takes the test as its parameter \<open>isX86\<close>.
\<close>

definition isX86TemperatureInfo :: "jsval \<Rightarrow> bool" where
  "isX86TemperatureInfo temp =
     (case temp of
        Obj props \<Rightarrow>
          map_of props ''cpu'' \<noteq> None \<and> map_of props ''gpu'' \<noteq> None \<and>
          map_of props ''motherboard'' \<noteq> None
      | _ \<Rightarrow> False)"

text \<open>\<^verbatim>\<open>typeof v === 'object'\<close>, which holds of \<^verbatim>\<open>null\<close> and of arrays too.\<close>

fun typeofObject :: "jsval \<Rightarrow> bool" where
  "typeofObject Null = True"
| "typeofObject (Arr xs) = True"
| "typeofObject (Obj props) = True"
| "typeofObject v = False"

text \<open>
  The callback of \<^verbatim>\<open>data.processes.map\<close>: the fields of the process, with \<^verbatim>\<open>cpu\<close> and
  \<^verbatim>\<open>memory\<close> replaced. Spreading a value that is not an object contributes no field
  that matters: \<^verbatim>\<open>process.cpu\<close> is then \<^verbatim>\<open>undefined\<close> (or the access throws), and
  \<^verbatim>\<open>formatNumber\<close> throws.
\<close>

definition formatProcess :: "jsval \<Rightarrow> exn + jsval" where
  "formatProcess process =
     andThen (andThen (getProp process ''cpu'') formatNumber) (\<lambda>cpu.
     andThen (andThen (getProp process ''memory'') formatNumber) (\<lambda>memory.
       Inr (Obj (AList.update ''memory'' memory (AList.update ''cpu'' cpu
         (case process of Obj props \<Rightarrow> props | _ \<Rightarrow> []))))))"

fun mapThrowing :: "('a \<Rightarrow> exn + 'b) \<Rightarrow> 'a list \<Rightarrow> exn + 'b list" where
  "mapThrowing f [] = Inr []"
| "mapThrowing f (x # xs) =
     andThen (f x) (\<lambda>y. andThen (mapThrowing f xs) (\<lambda>ys. Inr (y # ys)))"

text \<open>The fields of the object literal in \<^verbatim>\<open>formatServerData\<close>, in its order.\<close>

definition format_cpu :: "jsval \<Rightarrow> exn + jsval" where
  "format_cpu data =
     andThen (andThen (path2 data ''cpu'' ''usage'') formatNumber) (\<lambda>usage.
     andThen (path2 data ''cpu'' ''cores'') (\<lambda>cores.
     andThen (andThen (path2 data ''cpu'' ''temperature'') formatTemperature) (\<lambda>temperature.
       Inr (Obj [(''usage'', usage), (''cores'', cores), (''temperature'', temperature)]))))"

definition format_memory :: "jsval \<Rightarrow> exn + jsval" where
  "format_memory data =
     andThen (andThen (path2 data ''memory'' ''used'') formatNumber) (\<lambda>used.
     andThen (path2 data ''memory'' ''total'') (\<lambda>total.
     andThen (andThen (path2 data ''memory'' ''percentage'') formatNumber) (\<lambda>percentage.
       Inr (Obj [(''used'', used), (''total'', total), (''percentage'', percentage)]))))"

definition format_disk :: "jsval \<Rightarrow> exn + jsval" where
  "format_disk data =
     andThen (andThen (path2 data ''disk'' ''used'') formatNumber) (\<lambda>used.
     andThen (path2 data ''disk'' ''total'') (\<lambda>total.
     andThen (andThen (path2 data ''disk'' ''percentage'') formatNumber) (\<lambda>percentage.
       Inr (Obj [(''used'', used), (''total'', total), (''percentage'', percentage)]))))"

definition format_network :: "jsval \<Rightarrow> exn + jsval" where
  "format_network data =
     andThen (andThen (path2 data ''network'' ''download'') formatNumber) (\<lambda>download.
     andThen (andThen (path2 data ''network'' ''upload'') formatNumber) (\<lambda>upload.
     andThen (andThen (path2 data ''network'' ''ping'') formatNumber) (\<lambda>ping.
     andThen (path3 data ''network'' ''errorRates'' ''rx'') (\<lambda>rx.
     andThen (path3 data ''network'' ''errorRates'' ''tx'') (\<lambda>tx.
       Inr (Obj [(''download'', download), (''upload'', upload), (''ping'', ping),
                 (''errorRates'', Obj [(''rx'', rx), (''tx'', tx)])]))))))"

definition format_uptime :: "jsval \<Rightarrow> exn + jsval" where
  "format_uptime data =
     andThen (path2 data ''uptime'' ''days'') (\<lambda>days.
     andThen (path2 data ''uptime'' ''hours'') (\<lambda>hours.
     andThen (path2 data ''uptime'' ''minutes'') (\<lambda>minutes.
       Inr (Obj [(''days'', days), (''hours'', hours), (''minutes'', minutes)]))))"

definition format_temperature :: "(jsval \<Rightarrow> bool) \<Rightarrow> jsval \<Rightarrow> exn + jsval" where
  "format_temperature isX86 data =
     andThen (getProp data ''temperature'') (\<lambda>temperature.
       if isX86 temperature then
         andThen (andThen (path2 data ''temperature'' ''cpu'') formatTemperature) (\<lambda>cpu.
         andThen (andThen (path2 data ''temperature'' ''gpu'') formatTemperature) (\<lambda>gpu.
         andThen (andThen (path2 data ''temperature'' ''motherboard'') formatTemperature)
           (\<lambda>motherboard.
             Inr (Obj [(''cpu'', cpu), (''gpu'', gpu), (''motherboard'', motherboard)]))))
       else
         andThen (andThen (path2 data ''temperature'' ''cpu'') formatTemperature) (\<lambda>cpu.
         andThen (andThen (path2 data ''temperature'' ''rp1'') formatTemperature) (\<lambda>rp1.
         andThen (andThen (path2 data ''temperature'' ''ssd'') formatTemperature) (\<lambda>ssd.
           Inr (Obj [(''cpu'', cpu), (''rp1'', rp1), (''ssd'', ssd)])))))"

definition format_fan :: "jsval \<Rightarrow> exn + jsval" where
  "format_fan data =
     andThen (andThen (path2 data ''fan'' ''cpu'') formatNumber) (\<lambda>cpu.
     andThen (andThen (path2 data ''fan'' ''case1'') formatNumber) (\<lambda>case1.
     andThen (andThen (path2 data ''fan'' ''case2'') formatNumber) (\<lambda>case2.
       Inr (Obj [(''cpu'', cpu), (''case1'', case1), (''case2'', case2)]))))"

text \<open>Only an array has a \<^verbatim>\<open>map\<close> method.\<close>

definition format_processes :: "jsval \<Rightarrow> exn + jsval" where
  "format_processes data =
     andThen (getProp data ''processes'') (\<lambda>processes.
       case processes of
         Arr ps \<Rightarrow> andThen (mapThrowing formatProcess ps) (\<lambda>qs. Inr (Arr qs))
       | _ \<Rightarrow> Inl TypeError)"

definition formatServerData :: "(jsval \<Rightarrow> bool) \<Rightarrow> jsval \<Rightarrow> exn + jsval" where
  "formatServerData isX86 data =
     (if \<not> typeofObject data \<or> data = Null then Inr data
      else
        andThen (format_cpu data) (\<lambda>cpu.
        andThen (format_memory data) (\<lambda>memory.
        andThen (format_disk data) (\<lambda>disk.
        andThen (format_network data) (\<lambda>network.
        andThen (format_uptime data) (\<lambda>uptime.
        andThen (format_temperature isX86 data) (\<lambda>temperature.
        andThen (format_fan data) (\<lambda>fan.
        andThen (format_processes data) (\<lambda>processes.
          Inr (Obj [(''cpu'', cpu), (''memory'', memory), (''disk'', disk),
                    (''network'', network), (''uptime'', uptime),
                    (''temperature'', temperature), (''fan'', fan),
                    (''processes'', processes)]))))))))))"

section \<open>Summaries of an iteration, and concrete inputs\<close>

text \<open>
  Two of the hosts of the page's \<^verbatim>\<open>servers\<close> list, outcomes of a fetch and worlds built
  from them, for the concrete rounds below.
\<close>

definition ruthServer :: Server where
  "ruthServer = \<lparr>name = ''RuthServer'', ip = ''ruthcloud.xyz'', type = ''intel''\<rparr>"

definition ruthPiMaster :: Server where
  "ruthPiMaster = \<lparr>name = ''RuthPiMaster'', ip = ''cluster0.ruthcloud.xyz'', type = ''rpi''\<rparr>"

definition timedOut :: fetch_outcome where
  "timedOut = \<lparr>latency = 60000, result = Rejects, json_ms = 0\<rparr>"

definition refused :: fetch_outcome where
  "refused = \<lparr>latency = 3, result = Rejects, json_ms = 0\<rparr>"

definition http500 :: fetch_outcome where
  "http500 = \<lparr>latency = 40, result = Responds False None, json_ms = 0\<rparr>"

definition answersWith :: "jsval \<Rightarrow> fetch_outcome" where
  "answersWith body = \<lparr>latency = 100, result = Responds True (Some body), json_ms = 0\<rparr>"

definition perHost :: "(string \<times> fetch_outcome) list \<Rightarrow> env" where
  "perHost table =
     \<lparr>fetch = (\<lambda>t url. case map_of table url of None \<Rightarrow> refused | Some out \<Rightarrow> out),
      toLocaleTimeString = (\<lambda>t. ''12:00:00'')\<rparr>"

text \<open>What the body of the loop of \<^verbatim>\<open>cleanupNetworkHistory\<close> makes of one host's entries.\<close>

definition pruned :: "'a list \<Rightarrow> 'a list" where
  "pruned entries = (if 30 < length entries then slice_last 30 entries else entries)"

text \<open>
  The status one iteration of the loop stores for its host, and the time the iteration
  takes, as functions of the outcome of its fetch; \<open>status_poll_host\<close> and
  \<open>clock_poll_host\<close> below prove them of \<open>poll_host\<close>.
\<close>

definition statusOf :: "fetch_outcome \<Rightarrow> jsval" where
  "statusOf out =
     (if 5000 \<le> latency out then errorMarker ''Connection failed''
      else case result out of
        Rejects \<Rightarrow> errorMarker ''Connection failed''
      | Responds ok body \<Rightarrow>
          if ok then
            (case body of
               None \<Rightarrow> errorMarker ''Connection failed''
             | Some serverData \<Rightarrow>
                 (case getProp serverData ''network'' of
                    Inl err \<Rightarrow> errorMarker ''Connection failed''
                  | Inr network \<Rightarrow> serverData))
          else errorMarker ''Failed to fetch'')"

definition waitOf :: "fetch_outcome \<Rightarrow> nat" where
  "waitOf out =
     (if 5000 \<le> latency out then 5000
      else case result out of
        Rejects \<Rightarrow> latency out
      | Responds ok body \<Rightarrow> if ok then latency out + json_ms out else latency out)"

definition ruthPiNode1 :: Server where
  "ruthPiNode1 = \<lparr>name = ''RuthPiNode1'', ip = ''cluster1.ruthcloud.xyz'', type = ''rpi''\<rparr>"

text \<open>
  A payload of the shape the normalizer expects, but for its \<^verbatim>\<open>temperature\<close> object,
  which is the argument. Every number in it is a binary64 value.
\<close>

definition payloadWith :: "jsval \<Rightarrow> jsval" where
  "payloadWith temperature =
     Obj [(''cpu'', Obj [(''usage'', Num (Fin (1 / 8))), (''cores'', Num (Fin 4)),
                         (''temperature'', Num (Fin (91 / 2)))]),
          (''memory'', Obj [(''used'', Num (Fin (4097 / 4))), (''total'', Num (Fin 8192)),
                            (''percentage'', Num (Fin (25 / 2)))]),
          (''disk'', Obj [(''used'', Num (Fin (201 / 2))), (''total'', Num (Fin 512)),
                          (''percentage'', Num (Fin (157 / 8)))]),
          (''network'', Obj [(''download'', Num (Fin (3 / 2))), (''upload'', Num (Fin (1 / 4))),
                             (''ping'', Num (Fin 12)),
                             (''errorRates'', Obj [(''rx'', Str ''0.00''), (''tx'', Str ''0.00'')])]),
          (''uptime'', Obj [(''days'', Num (Fin 3)), (''hours'', Num (Fin 4)),
                            (''minutes'', Num (Fin 5))]),
          (''temperature'', temperature),
          (''fan'', Obj [(''cpu'', Num (Fin 1200)), (''case1'', Num (Fin 0)),
                         (''case2'', Num (Fin 0))]),
          (''processes'', Arr [Obj [(''name'', Str ''node''), (''cpu'', Num (Fin (3 / 2))),
                                    (''memory'', Num (Fin (9 / 4)))]])]"

definition x86Payload :: jsval where
  "x86Payload = payloadWith (Obj [(''cpu'', Num (Fin (91 / 2))), (''gpu'', Num (Fin (201 / 4))),
                                  (''motherboard'', Num (Fin 30))])"

definition thirdShapePayload :: jsval where
  "thirdShapePayload = payloadWith (Obj [(''cpu'', Num (Fin 40))])"

definition unknownShapePayload :: jsval where
  "unknownShapePayload = payloadWith (Obj [(''cpu'', Num (Fin 40)), (''nvme'', Num (Fin 35))])"

definition startOfRound :: poll_state where
  "startOfRound = \<lparr>newData = [], networkHistory = [], clock = 0\<rparr>"

text \<open>The first host never answers, the second answers after 100 ms.\<close>

definition slowAndFast :: env where
  "slowAndFast = perHost [(systemUrl ruthServer, timedOut),
                          (systemUrl ruthPiMaster, answersWith x86Payload)]"

definition timeoutRefusedAnd500 :: env where
  "timeoutRefusedAnd500 = perHost [(systemUrl ruthServer, timedOut),
     (systemUrl ruthPiMaster, refused), (systemUrl ruthPiNode1, http500)]"

text \<open>
  Both hosts answer after 100 ms with an ok response; \<open>firstBodyStalls\<close> has the body of
  the first host's response never arrive, \<open>noBodyStalls\<close> has every body arrive.
\<close>

definition bothAnswer :: env where
  "bothAnswer = perHost [(systemUrl ruthServer, answersWith x86Payload),
                         (systemUrl ruthPiMaster, answersWith x86Payload)]"

definition firstBodyStalls :: "nat \<Rightarrow> string \<Rightarrow> bool" where
  "firstBodyStalls t url = (url = systemUrl ruthServer)"

definition noBodyStalls :: "nat \<Rightarrow> string \<Rightarrow> bool" where
  "noBodyStalls t url = False"

text \<open>The host answers with the JSON text \<^verbatim>\<open>{}\<close>.\<close>

definition emptyBody :: env where
  "emptyBody = perHost [(systemUrl ruthServer, answersWith (Obj []))]"

text \<open>A computation that throws nothing but a \<^verbatim>\<open>TypeError\<close>.\<close>

definition onlyTypeError :: "exn + 'a \<Rightarrow> bool" where
  "onlyTypeError m = (case m of Inl e \<Rightarrow> e = TypeError | Inr x \<Rightarrow> True)"

section \<open>Properties of the network history\<close>

lemma slice_last_length: "length (slice_last n xs) = min (length xs) n"
  by (simp add: slice_last_def)

lemma slice_last_short: "length xs \<le> n \<Longrightarrow> slice_last n xs = xs"
  by (simp add: slice_last_def)

lemma slice_last_append: "slice_last n (slice_last n xs @ ys) = slice_last n (xs @ ys)"
proof (cases "length xs \<le> n")
  case True
  then show ?thesis by (simp add: slice_last_def)
next
  case False
  then have "length xs + length ys - (length xs - n + n) + (length xs - n) =
      length xs + length ys - n"
    by simp
  then show ?thesis using False by (simp add: slice_last_def min_def)
qed

lemma readHistory_update:
  "readHistory (updateNetworkHistory now serverIp nd prev) k =
     (if k = serverIp then slice_last 30 (readHistory prev serverIp @ [pointOf (now, serverIp, nd)])
      else readHistory prev k)"
  by (simp add: readHistory_def updateNetworkHistory_def pointOf_def update_conv' Let_def)

lemma readHistory_appends:
  "readHistory (foldl appendPoint prev calls) k =
     (if pointsFor k calls = [] then readHistory prev k
      else slice_last 30 (readHistory prev k @ pointsFor k calls))"
proof (induction calls arbitrary: prev)
  case Nil
  show ?case by (simp add: pointsFor_def)
next
  case (Cons c calls)
  obtain now ip nd where c: "c = (now, ip, nd)" by (cases c) auto
  show ?case
  proof (cases "ip = k")
    case True
    have here: "readHistory (appendPoint prev c) k =
        slice_last 30 (readHistory prev k @ [pointOf c])"
      using True by (simp add: c appendPoint_def readHistory_update)
    have pts: "pointsFor k (c # calls) = pointOf c # pointsFor k calls"
      using True by (simp add: c pointsFor_def)
    show ?thesis
    proof (cases "pointsFor k calls = []")
      case True
      then show ?thesis using Cons.IH [of "appendPoint prev c"] here pts by simp
    next
      case False
      then show ?thesis
        using Cons.IH [of "appendPoint prev c"] here pts
        by (simp add: slice_last_append)
    qed
  next
    case False
    have here: "readHistory (appendPoint prev c) k = readHistory prev k"
      using False by (simp add: c appendPoint_def readHistory_update)
    have pts: "pointsFor k (c # calls) = pointsFor k calls"
      using False by (simp add: c pointsFor_def)
    show ?thesis using Cons.IH [of "appendPoint prev c"] here pts by simp
  qed
qed

text \<open>
  C4. For every sequence of calls of \<^verbatim>\<open>updateNetworkHistory\<close> (to any hosts, starting
  from the empty history), what is stored for a host is the list of the points appended
  for it, in arrival order, without all but its last 30: it never has more than 30
  entries, it has exactly \<open>min n 30\<close> after \<open>n\<close> appends, and the oldest go first.
\<close>

theorem ring_buffer_latest_30:
  "readHistory (foldl appendPoint [] calls) serverIp =
     drop (length (pointsFor serverIp calls) - 30) (pointsFor serverIp calls) \<and>
   length (readHistory (foldl appendPoint [] calls) serverIp) =
     min (length (pointsFor serverIp calls)) 30"
proof -
  have empty: "readHistory [] serverIp = []"
    by (simp add: readHistory_def)
  have "readHistory (foldl appendPoint [] calls) serverIp =
      slice_last 30 (pointsFor serverIp calls)"
    using readHistory_appends [of "[]" calls serverIp] empty
    by (cases "pointsFor serverIp calls = []") (simp_all add: slice_last_def)
  then show ?thesis by (simp add: slice_last_def)
qed

lemma pruned_pruned: "pruned (pruned entries) = pruned entries"
  by (simp add: pruned_def slice_last_length)

lemma length_pruned: "length (pruned entries) \<le> 30"
  by (simp add: pruned_def slice_last_length)

lemma map_option_pruned: "map_option pruned (map_option pruned x) = map_option pruned x"
  by (cases x) (simp_all add: pruned_pruned)

lemma map_of_cleanup_step:
  "map_of (cleanup_step a h) k =
     (if k = a then map_option pruned (map_of h k) else map_of h k)"
  by (simp add: cleanup_step_def pruned_def update_conv' split: option.splits)

lemma map_of_fold_cleanup:
  "map_of (fold cleanup_step ks h) k =
     (if k \<in> set ks then map_option pruned (map_of h k) else map_of h k)"
proof (induction ks arbitrary: h)
  case Nil
  show ?case by simp
next
  case (Cons a ks)
  show ?case
    by (simp add: Cons.IH map_of_cleanup_step map_option_pruned)
qed

lemma map_of_cleanup:
  "map_of (cleanupNetworkHistory h) k = map_option pruned (map_of h k)"
proof (cases "map_of h k")
  case None
  then show ?thesis by (simp add: cleanupNetworkHistory_def map_of_fold_cleanup)
next
  case (Some entries)
  then have "k \<in> set (map fst h)"
    by (metis map_of_eq_None_iff option.distinct(1) set_map)
  then show ?thesis by (simp add: cleanupNetworkHistory_def map_of_fold_cleanup)
qed

lemma cleanup_step_id:
  "(case map_of h a of None \<Rightarrow> True | Some entries \<Rightarrow> length entries \<le> 30) \<Longrightarrow>
     cleanup_step a h = h"
  by (simp add: cleanup_step_def split: option.splits)

lemma fold_cleanup_id:
  "(\<And>a. case map_of h a of None \<Rightarrow> True | Some entries \<Rightarrow> length entries \<le> 30) \<Longrightarrow>
     fold cleanup_step ks h = h"
  by (induction ks) (simp_all add: cleanup_step_id)

text \<open>
  C9. \<^verbatim>\<open>cleanupNetworkHistory\<close> is idempotent; it leaves a host's entries as they are
  when there are 30 or fewer, and keeps the last 30 of them otherwise.
\<close>

theorem prune_idempotent:
  "cleanupNetworkHistory (cleanupNetworkHistory h) = cleanupNetworkHistory h \<and>
   map_of (cleanupNetworkHistory h) serverIp =
     map_option (\<lambda>entries. if length entries \<le> 30 then entries
                           else drop (length entries - 30) entries)
       (map_of h serverIp)"
proof
  have small: "\<And>a. case map_of (cleanupNetworkHistory h) a of None \<Rightarrow> True
      | Some entries \<Rightarrow> length entries \<le> 30"
    by (simp add: map_of_cleanup length_pruned split: option.splits)
  have "cleanupNetworkHistory (cleanupNetworkHistory h) =
      fold cleanup_step (map fst (cleanupNetworkHistory h)) (cleanupNetworkHistory h)"
    by (rule cleanupNetworkHistory_def)
  also have "\<dots> = cleanupNetworkHistory h"
    using small by (rule fold_cleanup_id)
  finally show "cleanupNetworkHistory (cleanupNetworkHistory h) = cleanupNetworkHistory h" .
next
  show "map_of (cleanupNetworkHistory h) serverIp =
     map_option (\<lambda>entries. if length entries \<le> 30 then entries
                           else drop (length entries - 30) entries)
       (map_of h serverIp)"
    by (cases "map_of h serverIp") (simp_all add: map_of_cleanup pruned_def slice_last_def)
qed

section \<open>Properties of the poller\<close>

lemma keys_poll_host:
  "fst ` set (newData (poll_host e server s)) = insert (ip server) (fst ` set (newData s))"
  by (simp add: poll_host_def try_block_def Let_def dom_update
      split: fetch_result.splits option.splits sum.splits prod.splits)

lemma keys_fold_poll:
  "fst ` set (newData (fold (poll_host e) servers s)) = fst ` set (newData s) \<union> ip ` set servers"
  by (induction servers arbitrary: s) (auto simp: keys_poll_host)

lemma status_poll_host:
  "map_of (newData (poll_host e server s)) (ip server) =
     Some (statusOf (fetch e (clock s) (systemUrl server)))"
  by (simp add: poll_host_def try_block_def statusOf_def Let_def update_conv'
      split: fetch_result.splits option.splits sum.splits prod.splits)

lemma frame_poll_host:
  "k \<noteq> ip server \<Longrightarrow> map_of (newData (poll_host e server s)) k = map_of (newData s) k"
  by (simp add: poll_host_def try_block_def Let_def update_conv'
      split: fetch_result.splits option.splits sum.splits prod.splits)

lemma clock_poll_host:
  "clock (poll_host e server s) = clock s + waitOf (fetch e (clock s) (systemUrl server))"
  by (simp add: poll_host_def try_block_def waitOf_def Let_def
      split: fetch_result.splits option.splits sum.splits prod.splits)

lemma frame_fold_poll:
  "k \<notin> ip ` set servers \<Longrightarrow>
     map_of (newData (fold (poll_host e) servers s)) k = map_of (newData s) k"
  by (induction servers arbitrary: s) (auto simp: frame_poll_host)

lemma status_fold_poll:
  "server \<in> set servers \<Longrightarrow>
     \<exists>t. map_of (newData (fold (poll_host e) servers s)) (ip server) =
       Some (statusOf (fetch e t (systemUrl server)))"
proof (induction servers arbitrary: s server)
  case Nil
  then show ?case by simp
next
  case (Cons a servers)
  show ?case
  proof (cases "ip server \<in> ip ` set servers")
    case True
    then obtain server' where s': "server' \<in> set servers" "ip server' = ip server"
      by auto
    have "systemUrl server' = systemUrl server"
      using s' by (simp add: systemUrl_def)
    then show ?thesis
      using Cons.IH [OF s'(1), of "poll_host e a s"] s'(2) by simp
  next
    case False
    then have a: "ip a = ip server" using Cons.prems by auto
    then have u: "systemUrl a = systemUrl server" by (simp add: systemUrl_def)
    have "map_of (newData (fold (poll_host e) servers (poll_host e a s))) (ip server) =
        map_of (newData (poll_host e a s)) (ip server)"
      using False by (rule frame_fold_poll)
    also have "\<dots> = Some (statusOf (fetch e (clock s) (systemUrl server)))"
      using status_poll_host [of e a s] a u by simp
    finally show ?thesis by auto
  qed
qed

lemma clock_fold_poll:
  "\<forall>t url. fetch e t url = fetch e 0 url \<Longrightarrow>
     clock (fold (poll_host e) servers s) =
       clock s + sum_list (map (\<lambda>server. waitOf (fetch e 0 (systemUrl server))) servers)"
proof (induction servers arbitrary: s)
  case Nil
  show ?case by simp
next
  case (Cons a servers)
  have "fetch e (clock s) (systemUrl a) = fetch e 0 (systemUrl a)"
    using Cons.prems by blast
  then show ?case
    using Cons.IH [OF Cons.prems, of "poll_host e a s"] by (simp add: clock_poll_host)
qed

lemma published_status:
  assumes "server \<in> set servers" and "\<forall>t. fetch e t (systemUrl server) = out"
  shows "map_of (newData (fetchServerData e servers hist now)) (ip server) = Some (statusOf out)"
  using status_fold_poll [OF assms(1), of e] assms(2) by (simp add: fetchServerData_def)

lemma getProp_object:
  "serverData \<noteq> Null \<Longrightarrow> serverData \<noteq> Undefined \<Longrightarrow>
     getProp serverData k = Inr (optChain serverData k)"
  by (cases serverData) (simp_all add: optChain_def)

lemma history_poll_host:
  assumes "fetch e (clock s) (systemUrl server) = out"
    and "latency out < 5000"
    and "result out = Responds True (Some serverData)"
    and "serverData \<noteq> Null" and "serverData \<noteq> Undefined"
  shows "networkHistory (poll_host e server s) =
           updateNetworkHistory (toLocaleTimeString e (clock s + latency out + json_ms out))
             (ip server) (optChain serverData ''network'') (networkHistory s)"
  using assms(1-3) getProp_object [OF assms(4,5), of "''network''"]
  by (simp add: poll_host_def try_block_def Let_def)

lemma three_hosts:
  "ruthServer \<in> set [ruthServer, ruthPiMaster, ruthPiNode1]"
  "ruthPiMaster \<in> set [ruthServer, ruthPiMaster, ruthPiNode1]"
  "ruthPiNode1 \<in> set [ruthServer, ruthPiMaster, ruthPiNode1]"
  by simp_all

lemma three_outcomes:
  "\<forall>t. fetch timeoutRefusedAnd500 t (systemUrl ruthServer) = timedOut"
  "\<forall>t. fetch timeoutRefusedAnd500 t (systemUrl ruthPiMaster) = refused"
  "\<forall>t. fetch timeoutRefusedAnd500 t (systemUrl ruthPiNode1) = http500"
  by (simp_all add: timeoutRefusedAnd500_def perHost_def systemUrl_def ruthServer_def
      ruthPiMaster_def ruthPiNode1_def)

lemma slowAndFast_const: "\<forall>t url. fetch slowAndFast t url = fetch slowAndFast 0 url"
  by (simp add: slowAndFast_def perHost_def)

text \<open>
  What an iteration leaves in \<open>newData\<close>, and the rounds that return. A round returns
  unless it reads a body that never arrives, and a round that returns is the fold of
  its iterations: what is proved of \<open>fetchServerData\<close> holds of every round that
  publishes. Such a round publishes a complete mapping: its keys are the hosts of the
  sequence, and a host's entry is the status its fetch gave (\<open>statusOf\<close>: the parsed body
  of an ok response, a marker otherwise).
\<close>

lemma newData_poll_host:
  "newData (poll_host e server s) =
     AList.update (ip server) (statusOf (fetch e (clock s) (systemUrl server))) (newData s)"
  by (simp add: poll_host_def try_block_def statusOf_def Let_def
      split: fetch_result.splits option.splits sum.splits prod.splits)

lemma pollRound_returns:
  "pollRound stalled e servers s = Some s' \<Longrightarrow> s' = fold (poll_host e) servers s"
  by (induction servers arbitrary: s) (simp_all split: if_splits)

lemma pollRound_no_stall:
  "(\<And>t url. \<not> stalled t url) \<Longrightarrow>
     pollRound stalled e servers s = Some (fold (poll_host e) servers s)"
  by (induction servers arbitrary: s) simp_all

lemma published_is_newData:
  "publishedData stalled e servers hist now = Some data \<Longrightarrow>
     data = newData (fetchServerData e servers hist now)"
  by (auto simp: publishedData_def fetchServerData_def dest: pollRound_returns)

lemma published_complete:
  assumes "publishedData stalled e servers hist now = Some data"
  shows "fst ` set data = ip ` set servers"
    and "server \<in> set servers \<Longrightarrow>
           \<exists>t. map_of data (ip server) = Some (statusOf (fetch e t (systemUrl server)))"
proof -
  have data: "data = newData (fold (poll_host e) servers
      \<lparr>newData = [], networkHistory = hist, clock = now\<rparr>)"
    using published_is_newData [OF assms] by (simp add: fetchServerData_def)
  show "fst ` set data = ip ` set servers"
    by (simp add: data keys_fold_poll)
  show "\<exists>t. map_of data (ip server) = Some (statusOf (fetch e t (systemUrl server)))"
    if "server \<in> set servers"
    unfolding data using that by (rule status_fold_poll)
qed

lemma published_without_stall:
  "publishedData noBodyStalls e servers hist now =
     Some (newData (fetchServerData e servers hist now))"
  by (simp add: publishedData_def fetchServerData_def pollRound_no_stall noBodyStalls_def)

text \<open>
  C2 fails on the code when a body never arrives. Both hosts answer with an ok response
  after 100 ms, and the body of the first host's response never arrives. The timer was
  cleared when the headers arrived, so \<^verbatim>\<open>await response.json()\<close> waits for ever: the
  round polls no second host and publishes nothing, for neither host. When the body
  does arrive, the same round publishes a status for both hosts.
\<close>

theorem stalled_body_nothing_published:
  "readsBody (fetch bothAnswer 0 (systemUrl ruthServer)) \<and>
   firstBodyStalls 0 (systemUrl ruthServer) \<and>
   publishedData firstBodyStalls bothAnswer [ruthServer, ruthPiMaster] [] 0 = None \<and>
   publishedData noBodyStalls bothAnswer [ruthServer, ruthPiMaster] [] 0 =
     Some [(ip ruthServer, x86Payload), (ip ruthPiMaster, x86Payload)]"
proof (intro conjI)
  have first: "fetch bothAnswer t (systemUrl ruthServer) = answersWith x86Payload"
    and second: "fetch bothAnswer t (systemUrl ruthPiMaster) = answersWith x86Payload" for t
    by (simp_all add: bothAnswer_def perHost_def systemUrl_def ruthServer_def ruthPiMaster_def)
  have status: "statusOf (answersWith x86Payload) = x86Payload"
    by (simp add: statusOf_def answersWith_def x86Payload_def payloadWith_def)
  show reads: "readsBody (fetch bothAnswer 0 (systemUrl ruthServer))"
    by (simp add: first readsBody_def answersWith_def)
  show stalls: "firstBodyStalls 0 (systemUrl ruthServer)"
    by (simp add: firstBodyStalls_def)
  show "publishedData firstBodyStalls bothAnswer [ruthServer, ruthPiMaster] [] 0 = None"
    using reads stalls by (simp add: publishedData_def)
  have "ip ruthServer \<noteq> ip ruthPiMaster"
    by (simp add: ruthServer_def ruthPiMaster_def)
  then show "publishedData noBodyStalls bothAnswer [ruthServer, ruthPiMaster] [] 0 =
     Some [(ip ruthServer, x86Payload), (ip ruthPiMaster, x86Payload)]"
    by (simp add: published_without_stall fetchServerData_def newData_poll_host first second
        status)
qed

text \<open>
  C1, as the code has it. \<^verbatim>\<open>fetchServerData\<close> never calls \<^verbatim>\<open>formatServerData\<close>: for a host
  that answers within 5000 ms with an ok response whose body is a JSON value other than
  \<^verbatim>\<open>null\<close>, the status the round publishes is that body, unchanged, so the numbers the
  page reads are the ones the host sent.
\<close>

theorem stored_status_is_raw_payload:
  assumes "server \<in> set servers"
    and "\<forall>t. fetch e t (systemUrl server) = out"
    and "latency out < 5000"
    and "result out = Responds True (Some serverData)"
    and "serverData \<noteq> Null" and "serverData \<noteq> Undefined"
  shows "map_of (newData (fetchServerData e servers hist now)) (ip server) = Some serverData"
proof -
  have "statusOf out = serverData"
    using assms(3,4) getProp_object [OF assms(5,6)] by (simp add: statusOf_def)
  then show ?thesis
    using published_status [OF assms(1,2)] by simp
qed

theorem stored_status_is_raw_payload_witness:
  "ruthPiMaster \<in> set [ruthServer, ruthPiMaster] \<and>
   (\<forall>t. fetch slowAndFast t (systemUrl ruthPiMaster) = answersWith x86Payload) \<and>
   latency (answersWith x86Payload) < 5000 \<and>
   result (answersWith x86Payload) = Responds True (Some x86Payload) \<and>
   x86Payload \<noteq> Null \<and> x86Payload \<noteq> Undefined \<and>
   map_of (newData (fetchServerData slowAndFast [ruthServer, ruthPiMaster] [] 0))
     (ip ruthPiMaster) = Some x86Payload"
proof -
  have 1: "ruthPiMaster \<in> set [ruthServer, ruthPiMaster]"
    by simp
  have 2: "\<forall>t. fetch slowAndFast t (systemUrl ruthPiMaster) = answersWith x86Payload"
    by (simp add: slowAndFast_def perHost_def systemUrl_def ruthServer_def ruthPiMaster_def)
  have 3: "latency (answersWith x86Payload) < 5000"
    by (simp add: answersWith_def)
  have 4: "result (answersWith x86Payload) = Responds True (Some x86Payload)"
    by (simp add: answersWith_def)
  have 5: "x86Payload \<noteq> Null" and 6: "x86Payload \<noteq> Undefined"
    by (simp_all add: x86Payload_def payloadWith_def)
  show ?thesis
    using stored_status_is_raw_payload [OF 1 2 3 4 5 6] 1 2 3 4 5 6 by simp
qed

text \<open>
  C1 as the spec states it fails: a host answers with a payload whose \<^verbatim>\<open>cpu.usage\<close> is
  0.125; the status stored for it is that payload, and 0.125 is not a number rounded to
  two decimal places (\<^verbatim>\<open>formatNumber\<close> changes it).
\<close>

theorem raw_number_is_stored:
  "map_of (newData (fetchServerData (perHost [(systemUrl ruthServer, answersWith x86Payload)])
     [ruthServer] [] 0)) (ip ruthServer) = Some x86Payload \<and>
   path2 x86Payload ''cpu'' ''usage'' = Inr (Num (Fin (1 / 8))) \<and>
   formatNumber (Num (Fin (1 / 8))) \<noteq> Inr (Num (Fin (1 / 8)))"
proof (intro conjI)
  show "map_of (newData (fetchServerData (perHost [(systemUrl ruthServer, answersWith x86Payload)])
     [ruthServer] [] 0)) (ip ruthServer) = Some x86Payload"
    by (simp add: fetchServerData_def status_poll_host perHost_def statusOf_def answersWith_def
        x86Payload_def payloadWith_def)
  show "path2 x86Payload ''cpu'' ''usage'' = Inr (Num (Fin (1 / 8)))"
    by (simp add: path2_def andThen_def x86Payload_def payloadWith_def)
  have "Number (toFixed2 (Fin (1 / 8))) \<noteq> Fin (1 / 8)"
    by code_simp
  then show "formatNumber (Num (Fin (1 / 8))) \<noteq> Inr (Num (Fin (1 / 8)))"
    by (simp add: formatNumber_def)
qed

text \<open>
  C3, as the code has it. There are two markers, not three: a fetch aborted at 5000 ms
  and a transport failure both end in the \<^verbatim>\<open>catch\<close> clause and leave
  \<^verbatim>\<open>{error: 'Connection failed'}\<close>; a response that is not ok leaves
  \<^verbatim>\<open>{error: 'Failed to fetch'}\<close>; the two markers differ.
\<close>

theorem error_markers:
  assumes "server \<in> set servers"
    and "\<forall>t. fetch e t (systemUrl server) = out"
  shows "(5000 \<le> latency out \<or> result out = Rejects \<longrightarrow>
           map_of (newData (fetchServerData e servers hist now)) (ip server) =
             Some (errorMarker ''Connection failed'')) \<and>
         (latency out < 5000 \<and> result out = Responds False body \<longrightarrow>
           map_of (newData (fetchServerData e servers hist now)) (ip server) =
             Some (errorMarker ''Failed to fetch'')) \<and>
         errorMarker ''Connection failed'' \<noteq> errorMarker ''Failed to fetch''"
  using published_status [OF assms, where hist = hist and now = now]
  by (auto simp: statusOf_def errorMarker_def)

theorem error_markers_witness:
  "5000 \<le> latency timedOut \<and>
   map_of (newData (fetchServerData timeoutRefusedAnd500
     [ruthServer, ruthPiMaster, ruthPiNode1] [] 0)) (ip ruthServer) =
       Some (errorMarker ''Connection failed'') \<and>
   result refused = Rejects \<and>
   map_of (newData (fetchServerData timeoutRefusedAnd500
     [ruthServer, ruthPiMaster, ruthPiNode1] [] 0)) (ip ruthPiMaster) =
       Some (errorMarker ''Connection failed'') \<and>
   latency http500 < 5000 \<and> result http500 = Responds False None \<and>
   map_of (newData (fetchServerData timeoutRefusedAnd500
     [ruthServer, ruthPiMaster, ruthPiNode1] [] 0)) (ip ruthPiNode1) =
       Some (errorMarker ''Failed to fetch'')"
  using error_markers [OF three_hosts(1) three_outcomes(1),
      where body = None and hist = "[]" and now = 0]
    error_markers [OF three_hosts(2) three_outcomes(2),
      where body = None and hist = "[]" and now = 0]
    error_markers [OF three_hosts(3) three_outcomes(3),
      where body = None and hist = "[]" and now = 0]
  by (simp add: timedOut_def refused_def http500_def)

text \<open>
  C3 as the spec states it fails: in one round a host that times out and a host that
  refuses the connection get the same status, which names neither a timeout nor an
  unreachable host.
\<close>

theorem timeout_and_refusal_same_marker:
  "map_of (newData (fetchServerData timeoutRefusedAnd500
     [ruthServer, ruthPiMaster, ruthPiNode1] [] 0)) (ip ruthServer) =
       Some (Obj [(''error'', Str ''Connection failed'')]) \<and>
   map_of (newData (fetchServerData timeoutRefusedAnd500
     [ruthServer, ruthPiMaster, ruthPiNode1] [] 0)) (ip ruthPiMaster) =
       Some (Obj [(''error'', Str ''Connection failed'')])"
  using published_status [OF three_hosts(1) three_outcomes(1), where hist = "[]" and now = 0]
    published_status [OF three_hosts(2) three_outcomes(2), where hist = "[]" and now = 0]
  by (simp add: statusOf_def timedOut_def refused_def errorMarker_def)

text \<open>
  C5, as the code has it. The fetches of a round are issued one after the other: the loop
  awaits a host's fetch (and the body of an ok response) before it turns to the next
  host, so the fetch of a host is issued when the iteration before it has ended, and an
  iteration takes the wait of its host (\<open>waitOf\<close>: 5000 ms for an aborted fetch, the
  latency otherwise, and the time to read the body of an ok response). In a world whose
  answers do not depend on the time of the request, a round takes the sum of its hosts'
  waits.
\<close>

theorem round_time_is_sum:
  assumes "\<forall>t url. fetch e t url = fetch e 0 url"
  shows "clock (poll_host e server s) = clock s + waitOf (fetch e (clock s) (systemUrl server)) \<and>
         clock (fetchServerData e servers hist now) =
           now + sum_list (map (\<lambda>server. waitOf (fetch e 0 (systemUrl server))) servers)"
  using clock_fold_poll [OF assms] by (simp add: fetchServerData_def clock_poll_host)

theorem round_time_is_sum_witness:
  "(\<forall>t url. fetch slowAndFast t url = fetch slowAndFast 0 url) \<and>
   clock (fetchServerData slowAndFast [ruthServer, ruthPiMaster] [] 0) = 5000 + 100"
  using round_time_is_sum [OF slowAndFast_const,
      where servers = "[ruthServer, ruthPiMaster]" and hist = "[]" and now = 0]
    slowAndFast_const
  by (simp add: slowAndFast_def perHost_def systemUrl_def ruthServer_def ruthPiMaster_def
      waitOf_def timedOut_def answersWith_def)

text \<open>
  C5 as the spec states it fails: host A never answers and host B answers after 100 ms.
  A's status is the marker of the \<^verbatim>\<open>catch\<close> clause, B's is its payload, and the round ends
  later than \<open>max 5000 100\<close> ms after it began.
\<close>

theorem round_takes_sum_not_max:
  "map_of (newData (fetchServerData slowAndFast [ruthServer, ruthPiMaster] [] 0)) (ip ruthServer) =
     Some (errorMarker ''Connection failed'') \<and>
   map_of (newData (fetchServerData slowAndFast [ruthServer, ruthPiMaster] [] 0)) (ip ruthPiMaster) =
     Some x86Payload \<and>
   latency (fetch slowAndFast 0 (systemUrl ruthPiMaster)) = 100 \<and>
   max 5000 100 < clock (fetchServerData slowAndFast [ruthServer, ruthPiMaster] [] 0)"
  by (simp add: fetchServerData_def poll_host_def try_block_def slowAndFast_def perHost_def
      systemUrl_def ruthServer_def ruthPiMaster_def timedOut_def answersWith_def Let_def
      x86Payload_def payloadWith_def update_conv')

text \<open>
  C7, as the code has it. \<^verbatim>\<open>updateNetworkHistory\<close> is called on every successful poll,
  with \<^verbatim>\<open>serverData.network\<close> whatever it is: one point is appended to the host's history
  whether or not the payload has a \<^verbatim>\<open>network\<close> field, and without the field the point
  has download 0 and upload 0.
\<close>

theorem point_appended_on_every_success:
  assumes "fetch e (clock s) (systemUrl server) = out"
    and "latency out < 5000"
    and "result out = Responds True (Some serverData)"
    and "serverData \<noteq> Null" and "serverData \<noteq> Undefined"
  shows "readHistory (networkHistory (poll_host e server s)) (ip server) =
           slice_last 30 (readHistory (networkHistory s) (ip server) @
             [pointOf (toLocaleTimeString e (clock s + latency out + json_ms out), ip server,
                optChain serverData ''network'')]) \<and>
         pointOf (now, ip server, Undefined) =
           \<lparr>time = now, download = Num (Fin 0), upload = Num (Fin 0)\<rparr>"
  by (simp add: history_poll_host [OF assms] readHistory_update pointOf_def optChain_def
      logicalOr_def)

theorem point_appended_on_every_success_witness:
  "fetch emptyBody (clock startOfRound) (systemUrl ruthServer) = answersWith (Obj []) \<and>
   latency (answersWith (Obj [])) < 5000 \<and>
   result (answersWith (Obj [])) = Responds True (Some (Obj [])) \<and>
   Obj [] \<noteq> Null \<and> Obj [] \<noteq> Undefined \<and>
   readHistory (networkHistory (poll_host emptyBody ruthServer startOfRound)) (ip ruthServer) =
     [\<lparr>time = ''12:00:00'', download = Num (Fin 0), upload = Num (Fin 0)\<rparr>]"
proof -
  have 1: "fetch emptyBody (clock startOfRound) (systemUrl ruthServer) = answersWith (Obj [])"
    by (simp add: emptyBody_def perHost_def)
  have 2: "latency (answersWith (Obj [])) < 5000"
    by (simp add: answersWith_def)
  have 3: "result (answersWith (Obj [])) = Responds True (Some (Obj []))"
    by (simp add: answersWith_def)
  have 4: "Obj [] \<noteq> Null" and 5: "Obj [] \<noteq> Undefined"
    by simp_all
  show ?thesis
    using point_appended_on_every_success [OF 1 2 3 4 5, of "''12:00:00''"] 1 2 3
    by (simp add: startOfRound_def readHistory_def slice_last_def optChain_def
        emptyBody_def perHost_def)
qed

text \<open>
  C7 as the spec states it fails: the payload \<^verbatim>\<open>{}\<close> has no \<^verbatim>\<open>network\<close> field, and the
  round appends a point with download 0 and upload 0 for its host.
\<close>

theorem zero_point_without_network:
  "getProp (Obj []) ''network'' = Inr Undefined \<and>
   readHistory (networkHistory (fetchServerData emptyBody [ruthServer] [] 0)) (ip ruthServer) =
     [\<lparr>time = ''12:00:00'', download = Num (Fin 0), upload = Num (Fin 0)\<rparr>]"
  by (simp add: fetchServerData_def poll_host_def try_block_def Let_def emptyBody_def perHost_def
      answersWith_def updateNetworkHistory_def readHistory_def slice_last_def optChain_def
      logicalOr_def update_conv')

section \<open>Properties of the presentation helpers\<close>

lemma optChain_update:
  "optChain (Obj (AList.update k v props)) k' = (if k' = k then v else optChain (Obj props) k')"
  by (simp add: optChain_def update_conv')

lemma optChain_delete:
  "optChain (Obj (AList.delete k props)) k' =
     (if k' = k then Undefined else optChain (Obj props) k')"
  by (simp add: optChain_def delete_conv')

text \<open>
  \<^verbatim>\<open>getTemperatureDisplay\<close> tests a reading by its truthiness, so a cpu temperature of 0
  gives the display an absent one gives.
\<close>

lemma zero_temperature_display:
  "getTemperatureDisplay (Some (t\<lparr>temp_cpu := Some (Fin 0)\<rparr>)) type' =
     getTemperatureDisplay (Some (t\<lparr>temp_cpu := None\<rparr>)) type'"
  by (simp add: getTemperatureDisplay_def truthyReading_def)

text \<open>
  C8, as the code has it. \<^verbatim>\<open>getFanSpeed\<close> shows a fan only when its speed is above 0
  (\<^verbatim>\<open>fan.cpu > 0\<close>): for all readings \<open>a\<close>, \<open>b\<close>, \<open>c\<close> of the three fans it shows the first
  of them that is above 0, and gives \<^verbatim>\<open>null\<close>, as no fan object does, when none is; so
  fans that all read 0 give \<^verbatim>\<open>null\<close>. And \<^verbatim>\<open>updateNetworkHistory\<close> defaults a missing
  value to 0 (\<^verbatim>\<open>networkData?.download || 0\<close>): a download or an upload of 0 gives the
  history point an absent field gives.
\<close>

theorem zero_reads_as_missing:
  "getFanSpeed (Some \<lparr>fan_cpu = Fin a, fan_case1 = Fin b, fan_case2 = Fin c\<rparr>) =
     (if 0 < a then Some (Template (Some (Fin a)) ''RPM'')
      else if 0 < b then Some (Template (Some (Fin b)) ''RPM'')
      else if 0 < c then Some (Template (Some (Fin c)) ''RPM'')
      else getFanSpeed None) \<and>
   getFanSpeed None = None \<and>
   (getFanSpeed (Some f) = None) =
     (\<not> greaterThanZero (fan_cpu f) \<and> \<not> greaterThanZero (fan_case1 f) \<and>
      \<not> greaterThanZero (fan_case2 f)) \<and>
   getFanSpeed (Some \<lparr>fan_cpu = Fin 0, fan_case1 = Fin 0, fan_case2 = Fin 0\<rparr>) =
     getFanSpeed None \<and>
   pointOf (now, serverIp, Obj (AList.update ''download'' (Num (Fin 0)) props)) =
     pointOf (now, serverIp, Obj (AList.delete ''download'' props)) \<and>
   pointOf (now, serverIp, Obj (AList.update ''upload'' (Num (Fin 0)) props)) =
     pointOf (now, serverIp, Obj (AList.delete ''upload'' props))"
  by (simp add: getFanSpeed_def pointOf_def optChain_update optChain_delete logicalOr_def)

text \<open>
  C8 as the spec states it fails: fans that read 0 give no fan display, as a missing fan
  object does, and the point recorded for a download of 0 is the point recorded for a
  payload without a download.
\<close>

theorem zero_fan_and_download_read_as_missing:
  "getFanSpeed (Some \<lparr>fan_cpu = Fin 0, fan_case1 = Fin 0, fan_case2 = Fin 0\<rparr>) = None \<and>
   getFanSpeed None = None \<and>
   pointOf (''12:00:00'', ip ruthServer, Obj [(''download'', Num (Fin 0))]) =
     pointOf (''12:00:00'', ip ruthServer, Obj [])"
  by (simp add: getFanSpeed_def pointOf_def optChain_def logicalOr_def)

section \<open>Properties of the normalizer\<close>

lemma onlyTypeError_Inr [simp]: "onlyTypeError (Inr x)"
  by (simp add: onlyTypeError_def)

lemma onlyTypeError_Inl [simp]: "onlyTypeError (Inl e) = (e = TypeError)"
  by (simp add: onlyTypeError_def)

lemma onlyTypeError_andThen:
  "onlyTypeError m \<Longrightarrow> (\<And>x. onlyTypeError (f x)) \<Longrightarrow> onlyTypeError (andThen m f)"
  by (cases m) (simp_all add: andThen_def)

lemma andThen_fails:
  "onlyTypeError m \<Longrightarrow> (\<And>x. f x = Inl TypeError) \<Longrightarrow> andThen m f = Inl TypeError"
  by (cases m) (simp_all add: andThen_def)

lemma andThen_failed: "m = Inl TypeError \<Longrightarrow> andThen m f = Inl TypeError"
  by (simp add: andThen_def)

lemma onlyTypeError_getProp: "onlyTypeError (getProp v k)"
  by (cases v) simp_all

lemma onlyTypeError_path2: "onlyTypeError (path2 data a b)"
  by (simp add: path2_def onlyTypeError_andThen onlyTypeError_getProp)

lemma onlyTypeError_path3: "onlyTypeError (path3 data a b c)"
  by (simp add: path3_def onlyTypeError_andThen onlyTypeError_getProp onlyTypeError_path2)

lemma onlyTypeError_formatNumber: "onlyTypeError (formatNumber v)"
  by (cases v) (simp_all add: formatNumber_def)

lemma onlyTypeError_formatTemperature: "onlyTypeError (formatTemperature v)"
  by (cases v) (simp_all add: formatTemperature_def)

lemmas onlyTypeError_steps =
  onlyTypeError_andThen onlyTypeError_getProp onlyTypeError_path2 onlyTypeError_path3
  onlyTypeError_formatNumber onlyTypeError_formatTemperature

lemma onlyTypeError_format_cpu: "onlyTypeError (format_cpu data)"
  unfolding format_cpu_def by (intro onlyTypeError_steps onlyTypeError_Inr)

lemma onlyTypeError_format_memory: "onlyTypeError (format_memory data)"
  unfolding format_memory_def by (intro onlyTypeError_steps onlyTypeError_Inr)

lemma onlyTypeError_format_disk: "onlyTypeError (format_disk data)"
  unfolding format_disk_def by (intro onlyTypeError_steps onlyTypeError_Inr)

lemma onlyTypeError_format_network: "onlyTypeError (format_network data)"
  unfolding format_network_def by (intro onlyTypeError_steps onlyTypeError_Inr)

lemma onlyTypeError_format_uptime: "onlyTypeError (format_uptime data)"
  unfolding format_uptime_def by (intro onlyTypeError_steps onlyTypeError_Inr)

lemma absent_sensor_throws:
  assumes "optChain (optChain data ''temperature'') k = Undefined"
  shows "andThen (path2 data ''temperature'' k) formatTemperature = Inl TypeError"
proof (cases "path2 data ''temperature'' k")
  case (Inl e)
  then show ?thesis
    using onlyTypeError_path2 [of data "''temperature''" k] by (simp add: andThen_def)
next
  case (Inr v)
  then have "v = optChain (optChain data ''temperature'') k"
    by (auto simp: path2_def andThen_def optChain_def split: sum.splits)
  then show ?thesis
    using Inr assms by (simp add: andThen_def formatTemperature_def)
qed

lemma three_sensors_throw:
  assumes "optChain (optChain data ''temperature'') a = Undefined \<or>
           optChain (optChain data ''temperature'') b = Undefined \<or>
           optChain (optChain data ''temperature'') c = Undefined"
  shows "andThen (andThen (path2 data ''temperature'' a) formatTemperature) (\<lambda>x.
         andThen (andThen (path2 data ''temperature'' b) formatTemperature) (\<lambda>y.
         andThen (andThen (path2 data ''temperature'' c) formatTemperature) (\<lambda>z.
           Inr (g x y z)))) = Inl TypeError"
proof -
  have only: "\<And>k. onlyTypeError (andThen (path2 data ''temperature'' k) formatTemperature)"
    by (intro onlyTypeError_steps)
  consider "optChain (optChain data ''temperature'') a = Undefined"
    | "optChain (optChain data ''temperature'') b = Undefined"
    | "optChain (optChain data ''temperature'') c = Undefined"
    using assms by blast
  then show ?thesis
  proof cases
    case 1
    then show ?thesis by (simp add: absent_sensor_throws andThen_failed)
  next
    case 2
    show ?thesis
      by (rule andThen_fails [OF only]) (simp add: absent_sensor_throws [OF 2] andThen_failed)
  next
    case 3
    show ?thesis
      by (rule andThen_fails [OF only], rule andThen_fails [OF only])
        (simp add: absent_sensor_throws [OF 3] andThen_failed)
  qed
qed

lemma format_temperature_throws:
  assumes "optChain (optChain data ''temperature'') ''cpu'' = Undefined \<or>
           optChain (optChain data ''temperature'') ''gpu'' = Undefined \<or>
           optChain (optChain data ''temperature'') ''motherboard'' = Undefined"
    and "optChain (optChain data ''temperature'') ''cpu'' = Undefined \<or>
         optChain (optChain data ''temperature'') ''rp1'' = Undefined \<or>
         optChain (optChain data ''temperature'') ''ssd'' = Undefined"
  shows "format_temperature isX86 data = Inl TypeError"
proof (cases "getProp data ''temperature''")
  case (Inl e)
  then show ?thesis
    using onlyTypeError_getProp [of data "''temperature''"]
    by (simp add: format_temperature_def andThen_def)
next
  case (Inr temperature)
  show ?thesis
    using three_sensors_throw [OF assms(1),
        where g = "\<lambda>x y z. Obj [(''cpu'', x), (''gpu'', y), (''motherboard'', z)]"]
      three_sensors_throw [OF assms(2),
        where g = "\<lambda>x y z. Obj [(''cpu'', x), (''rp1'', y), (''ssd'', z)]"]
    by (simp add: format_temperature_def Inr andThen_def [of "Inr temperature"])
qed

lemma formatServerData_throws:
  assumes "typeofObject data" and "data \<noteq> Null"
    and "optChain (optChain data ''temperature'') ''cpu'' = Undefined \<or>
         optChain (optChain data ''temperature'') ''gpu'' = Undefined \<or>
         optChain (optChain data ''temperature'') ''motherboard'' = Undefined"
    and "optChain (optChain data ''temperature'') ''cpu'' = Undefined \<or>
         optChain (optChain data ''temperature'') ''rp1'' = Undefined \<or>
         optChain (optChain data ''temperature'') ''ssd'' = Undefined"
  shows "formatServerData isX86 data = Inl TypeError"
proof -
  have "formatServerData isX86 data =
        andThen (format_cpu data) (\<lambda>cpu.
        andThen (format_memory data) (\<lambda>memory.
        andThen (format_disk data) (\<lambda>disk.
        andThen (format_network data) (\<lambda>network.
        andThen (format_uptime data) (\<lambda>uptime.
        andThen (format_temperature isX86 data) (\<lambda>temperature.
        andThen (format_fan data) (\<lambda>fan.
        andThen (format_processes data) (\<lambda>processes.
          Inr (Obj [(''cpu'', cpu), (''memory'', memory), (''disk'', disk),
                    (''network'', network), (''uptime'', uptime),
                    (''temperature'', temperature), (''fan'', fan),
                    (''processes'', processes)])))))))))"
    using assms(1,2) by (simp add: formatServerData_def)
  also have "\<dots> = Inl TypeError"
    by (intro andThen_fails onlyTypeError_format_cpu onlyTypeError_format_memory
        onlyTypeError_format_disk onlyTypeError_format_network onlyTypeError_format_uptime
        andThen_failed format_temperature_throws [OF assms(3,4)])
  finally show ?thesis .
qed

text \<open>
  C6, as the code has it. \<^verbatim>\<open>formatTemperature\<close> accepts a number and the string
  \<^verbatim>\<open>'N/A'\<close> only. For a payload (an object) whose \<^verbatim>\<open>temperature\<close> lacks a field of the x86
  set and a field of the arm set, \<^verbatim>\<open>formatServerData\<close> throws a \<^verbatim>\<open>TypeError\<close>, whichever
  variant the presence test \<open>isX86\<close> selects: the absent field is \<^verbatim>\<open>undefined\<close>, which has
  no \<^verbatim>\<open>toFixed\<close>.
\<close>

theorem third_shape_throws:
  assumes "typeofObject data" and "data \<noteq> Null"
    and "optChain (optChain data ''temperature'') ''cpu'' = Undefined \<or>
         optChain (optChain data ''temperature'') ''gpu'' = Undefined \<or>
         optChain (optChain data ''temperature'') ''motherboard'' = Undefined"
    and "optChain (optChain data ''temperature'') ''cpu'' = Undefined \<or>
         optChain (optChain data ''temperature'') ''rp1'' = Undefined \<or>
         optChain (optChain data ''temperature'') ''ssd'' = Undefined"
  shows "formatServerData isX86 data = Inl TypeError"
  using assms by (rule formatServerData_throws)

theorem third_shape_throws_witness:
  "typeofObject thirdShapePayload \<and> thirdShapePayload \<noteq> Null \<and>
   optChain (optChain thirdShapePayload ''temperature'') ''gpu'' = Undefined \<and>
   optChain (optChain thirdShapePayload ''temperature'') ''rp1'' = Undefined \<and>
   formatServerData isX86TemperatureInfo thirdShapePayload = Inl TypeError"
proof -
  have 0: "typeofObject thirdShapePayload" and 1: "thirdShapePayload \<noteq> Null"
    by (simp_all add: thirdShapePayload_def payloadWith_def)
  have 2: "optChain (optChain thirdShapePayload ''temperature'') ''gpu'' = Undefined"
    by (simp add: thirdShapePayload_def payloadWith_def optChain_def)
  have 3: "optChain (optChain thirdShapePayload ''temperature'') ''rp1'' = Undefined"
    by (simp add: thirdShapePayload_def payloadWith_def optChain_def)
  show ?thesis
    using third_shape_throws [OF 0 1 disjI2 [OF disjI1 [OF 2]] disjI2 [OF disjI1 [OF 3]],
        of isX86TemperatureInfo] 0 1 2 3
    by simp
qed

text \<open>
  C6 as the spec states it fails: a payload that is well formed but for its
  \<^verbatim>\<open>temperature\<close>, which has the fields \<^verbatim>\<open>cpu\<close> and \<^verbatim>\<open>nvme\<close>, makes the normalizer throw.
\<close>

theorem third_shape_crashes:
  "formatServerData isX86TemperatureInfo unknownShapePayload = Inl TypeError"
proof (rule formatServerData_throws)
  show "typeofObject unknownShapePayload" and "unknownShapePayload \<noteq> Null"
    by (simp_all add: unknownShapePayload_def payloadWith_def)
  have "optChain (optChain unknownShapePayload ''temperature'') ''gpu'' = Undefined"
    by (simp add: unknownShapePayload_def payloadWith_def optChain_def)
  then show "optChain (optChain unknownShapePayload ''temperature'') ''cpu'' = Undefined \<or>
         optChain (optChain unknownShapePayload ''temperature'') ''gpu'' = Undefined \<or>
         optChain (optChain unknownShapePayload ''temperature'') ''motherboard'' = Undefined"
    by simp
  have "optChain (optChain unknownShapePayload ''temperature'') ''rp1'' = Undefined"
    by (simp add: unknownShapePayload_def payloadWith_def optChain_def)
  then show "optChain (optChain unknownShapePayload ''temperature'') ''cpu'' = Undefined \<or>
         optChain (optChain unknownShapePayload ''temperature'') ''rp1'' = Undefined \<or>
         optChain (optChain unknownShapePayload ''temperature'') ''ssd'' = Undefined"
    by simp
qed

section \<open>Properties of the numbers\<close>

text \<open>
  The exponent \<open>ilog2\<close> finds, the error of \<open>round_half_even\<close>, and the form of the
  Number value of a rational in the range of the normal binary64 values.
\<close>

lemma bitlen_powi_bounds:
  assumes "0 < k"
  shows "(2::rat) powi (bitlen k - 1) \<le> of_int k \<and> of_int k < (2::rat) powi (bitlen k)"
proof -
  have len: "1 \<le> bitlen k"
    using assms by (simp add: bitlen_alt_def)
  have "(2::int) ^ nat (bitlen k - 1) \<le> k" and "k < (2::int) ^ nat (bitlen k)"
    using bitlen_bounds [OF assms] by simp_all
  then have "(of_int ((2::int) ^ nat (bitlen k - 1)) :: rat) \<le> of_int k"
    and "(of_int k :: rat) < of_int ((2::int) ^ nat (bitlen k))"
    by (simp_all only: of_int_le_iff of_int_less_iff)
  then show ?thesis
    using len by (simp add: power_int_nonneg_exp)
qed

lemma ilog2_bounds:
  assumes "0 < p"
  shows "2 powi (ilog2 p) \<le> p \<and> p < 2 powi (ilog2 p + 1)"
proof -
  obtain a b where ab: "quotient_of p = (a, b)"
    by (cases "quotient_of p")
  have b: "0 < b"
    using ab by (rule quotient_of_denom_pos)
  have p: "p = of_int a / of_int b"
    using ab by (rule quotient_of_div)
  have a: "0 < a"
    using assms p b by (simp add: zero_less_divide_iff)
  define d where "d = bitlen a - bitlen b"
  have a_lo: "(2::rat) powi (bitlen a - 1) \<le> of_int a"
    and a_hi: "of_int a < (2::rat) powi (bitlen a)"
    using bitlen_powi_bounds [OF a] by simp_all
  have b_lo: "(2::rat) powi (bitlen b - 1) \<le> of_int b"
    and b_hi: "of_int b < (2::rat) powi (bitlen b)"
    using bitlen_powi_bounds [OF b] by simp_all
  have bpos: "(0::rat) < of_int b"
    using b by simp
  have upper: "p < 2 powi (d + 1)"
  proof -
    have "of_int a < (2::rat) powi (d + 1) * 2 powi (bitlen b - 1)"
      using a_hi by (simp add: d_def flip: power_int_add)
    also have "\<dots> \<le> 2 powi (d + 1) * of_int b"
      using b_lo by (intro mult_left_mono) simp_all
    finally show ?thesis
      using bpos by (simp add: p pos_divide_less_eq)
  qed
  have lower: "2 powi (d - 1) < p"
  proof -
    have "(2::rat) powi (d - 1) * of_int b < 2 powi (d - 1) * 2 powi (bitlen b)"
      using b_hi by (intro mult_strict_left_mono) simp_all
    also have "\<dots> = 2 powi (bitlen a - 1)"
      by (simp add: d_def flip: power_int_add)
    also have "\<dots> \<le> of_int a"
      by (rule a_lo)
    finally show ?thesis
      using bpos by (simp add: p pos_less_divide_eq)
  qed
  show ?thesis
  proof (cases "2 powi d \<le> p")
    case True
    then have "ilog2 p = d"
      by (simp add: ilog2_def ab d_def)
    then show ?thesis using True upper by simp
  next
    case False
    then have "ilog2 p = d - 1"
      by (simp add: ilog2_def ab d_def)
    then show ?thesis using False lower by simp
  qed
qed

lemma ilog2_unique:
  assumes "2 powi e \<le> p" and "p < 2 powi (e + 1)"
  shows "ilog2 p = e"
proof -
  have pos: "0 < p"
    using assms(1) by (rule less_le_trans [rotated]) simp
  have b: "2 powi (ilog2 p) \<le> p" "p < 2 powi (ilog2 p + 1)"
    using ilog2_bounds [OF pos] by simp_all
  have "(2::rat) powi e < 2 powi (ilog2 p + 1)"
    using assms(1) b(2) by (rule le_less_trans)
  then have 1: "e < ilog2 p + 1"
    by (metis not_less one_le_numeral power_int_increasing)
  have "(2::rat) powi (ilog2 p) < 2 powi (e + 1)"
    using b(1) assms(2) by (rule le_less_trans)
  then have 2: "ilog2 p < e + 1"
    by (metis not_less one_le_numeral power_int_increasing)
  show ?thesis using 1 2 by simp
qed

lemma round_half_even_near:
  assumes "\<bar>x - of_int m\<bar> < 1 / 2"
  shows "round_half_even x = m"
proof (cases "of_int m \<le> x")
  case True
  then have f: "\<lfloor>x\<rfloor> = m"
    using assms by (intro floor_unique) simp_all
  show ?thesis
    using assms True by (simp add: round_half_even_def f Let_def)
next
  case False
  then have f: "\<lfloor>x\<rfloor> = m - 1"
    using assms by (intro floor_unique) simp_all
  show ?thesis
    using assms False by (simp add: round_half_even_def f Let_def)
qed

lemma round_half_even_error: "\<bar>of_int (round_half_even x) - x\<bar> \<le> 1 / 2"
proof -
  have "of_int \<lfloor>x\<rfloor> \<le> x" "x < of_int \<lfloor>x\<rfloor> + 1"
    by linarith+
  then show ?thesis
    by (simp add: round_half_even_def Let_def)
qed

lemma two_powi_split: "(2::rat) powi e = 2 ^ 52 * 2 powi (e - 52)"
proof -
  have "(2::rat) powi e = 2 powi (52 + (e - 52))"
    by simp
  also have "\<dots> = 2 powi 52 * 2 powi (e - 52)"
    by (rule power_int_add) simp
  finally show ?thesis by simp
qed

lemma two_powi_Suc: "(2::rat) powi (e + 1) = 2 * 2 powi e"
  by (simp add: power_int_add)

lemma mantissa_bounds:
  assumes "2 powi e \<le> p" and "p < 2 powi (e + 1)"
  shows "2 ^ 52 \<le> round_half_even (p / 2 powi (e - 52)) \<and>
         round_half_even (p / 2 powi (e - 52)) \<le> 2 ^ 53"
proof -
  define u :: rat where "u = 2 powi (e - 52)"
  define m where "m = round_half_even (p / u)"
  have u: "0 < u"
    by (simp add: u_def)
  have lo: "2 ^ 52 \<le> p / u"
    using assms(1) u by (simp add: pos_le_divide_eq two_powi_split [of e] u_def)
  have hi: "p / u < 2 ^ 53"
    using assms(2) u
    by (simp add: pos_divide_less_eq two_powi_Suc two_powi_split [of e] u_def)
  have err: "\<bar>of_int m - p / u\<bar> \<le> 1 / 2"
    unfolding m_def by (rule round_half_even_error)
  have "(2::rat) ^ 52 - 1 < of_int m"
    using lo err by linarith
  then have "(of_int (2 ^ 52 - 1) :: rat) < of_int m"
    by simp
  then have 1: "2 ^ 52 - 1 < m"
    by (simp only: of_int_less_iff)
  have "of_int m < (2::rat) ^ 53 + 1"
    using hi err by linarith
  then have "(of_int m :: rat) < of_int (2 ^ 53 + 1)"
    by simp
  then have 2: "m < 2 ^ 53 + 1"
    by (simp only: of_int_less_iff)
  show ?thesis
    using 1 2 by (simp add: m_def u_def)
qed

lemma numberValue_normal:
  assumes "2 powi e \<le> p" and "p < 2 powi (e + 1)"
    and "- 1022 \<le> e" and "e \<le> 1022"
  shows "numberValue negative p =
    Fin (if negative then - (of_int (round_half_even (p / 2 powi (e - 52))) * 2 powi (e - 52))
         else of_int (round_half_even (p / 2 powi (e - 52))) * 2 powi (e - 52))"
proof -
  define u :: rat where "u = 2 powi (e - 52)"
  define m where "m = round_half_even (p / u)"
  have "(0::rat) < 2 powi e"
    by simp
  then have "0 < p"
    using assms(1) by (rule less_le_trans)
  then have p: "p \<noteq> 0"
    by simp
  have e: "ilog2 p = e"
    using assms(1,2) by (rule ilog2_unique)
  have u: "0 < u"
    by (simp add: u_def)
  have mb: "2 ^ 52 \<le> m" "m \<le> 2 ^ 53"
    using mantissa_bounds [OF assms(1,2)] by (simp_all add: m_def u_def)
  have "(of_int (2 ^ 52) :: rat) \<le> of_int m"
    using mb(1) by (simp only: of_int_le_iff)
  then have "(0::rat) < of_int m"
    by simp
  then have nz: "of_int m * u \<noteq> 0"
    using u by simp
  have "(of_int m :: rat) \<le> of_int (2 ^ 53)"
    using mb(2) by (simp only: of_int_le_iff)
  then have "of_int m * u \<le> 2 ^ 53 * u"
    by (intro mult_right_mono) (simp_all add: u_def)
  also have "\<dots> = 2 powi (e + 1)"
    by (simp add: two_powi_Suc two_powi_split [of e] u_def)
  also have "\<dots> \<le> 2 powi 1023"
    using assms(4) by (intro power_int_increasing) simp_all
  also have "\<dots> < 2 ^ 1024"
    by simp
  finally have small: "\<not> 2 ^ 1024 \<le> of_int m * u"
    by simp
  have "max e (- 1022) = e"
    using assms(3) by simp
  then show ?thesis
    using p e small nz by (simp add: numberValue_def Let_def m_def u_def)
qed

lemma numberValue_near_grid:
  assumes "2 powi e \<le> p" and "p < 2 powi (e + 1)"
    and "- 1022 \<le> e" and "e \<le> 1022"
    and "\<bar>p / 2 powi (e - 52) - of_int m\<bar> < 1 / 2"
  shows "numberValue negative p =
    Fin (if negative then - (of_int m * 2 powi (e - 52)) else of_int m * 2 powi (e - 52))"
proof -
  have "round_half_even (p / 2 powi (e - 52)) = m"
    using assms(5) by (rule round_half_even_near)
  then show ?thesis
    using numberValue_normal [OF assms(1-4), of negative] by simp
qed

text \<open>
  The binary64 values from \<open>2 ^ 46\<close> on are at least \<open>1 / 64\<close> apart: rounding one of them
  to two decimal places moves it by at most \<open>1 / 200\<close>, and \<open>numberValue\<close> brings it back.
\<close>

lemma floor_round_int: "\<lfloor>(of_int K :: rat) * 100 + 1 / 2\<rfloor> = K * 100"
  by (rule floor_unique) simp_all

lemma power_of_two_fixed:
  assumes "0 \<le> k" and "k \<le> 1022"
  shows "numberValue negative (of_int \<lfloor>(2::rat) powi k * 100 + 1 / 2\<rfloor> / 100) =
           Fin (if negative then - (2 powi k) else 2 powi k)"
proof -
  have int: "(2::rat) powi k = of_int (2 ^ nat k)"
    using assms(1) by (simp add: power_int_nonneg_exp)
  have eq: "(of_int \<lfloor>(2::rat) powi k * 100 + 1 / 2\<rfloor> :: rat) / 100 = 2 powi k"
    unfolding int floor_round_int by simp
  have grid: "of_int (2 ^ 52) * 2 powi (k - 52) = (2::rat) powi k"
    by (simp add: two_powi_split [of k])
  have "numberValue negative (2 powi k) =
      Fin (if negative then - (of_int (2 ^ 52) * 2 powi (k - 52))
           else of_int (2 ^ 52) * 2 powi (k - 52))"
  proof (rule numberValue_near_grid)
    show "(2::rat) powi k \<le> 2 powi k"
      by simp
    show "(2::rat) powi k < 2 powi (k + 1)"
      by (simp add: two_powi_Suc)
    show "- 1022 \<le> k" and "k \<le> 1022"
      using assms(1,2) by simp_all
    show "\<bar>(2::rat) powi k / 2 powi (k - 52) - of_int (2 ^ 52)\<bar> < 1 / 2"
      by (simp add: two_powi_split [of k])
  qed
  then show ?thesis
    unfolding eq grid .
qed

lemma interior_fixed:
  assumes "46 \<le> e" and "e \<le> 1022" and "2 ^ 52 < m" and "m < 2 ^ 53"
  shows "numberValue negative
           (of_int \<lfloor>(of_int m :: rat) * 2 powi (e - 52) * 100 + 1 / 2\<rfloor> / 100) =
         Fin (if negative then - (of_int m * 2 powi (e - 52)) else of_int m * 2 powi (e - 52))"
proof (rule numberValue_near_grid)
  define u :: rat where "u = 2 powi (e - 52)"
  define r where "r = of_int m * u"
  define p' :: rat where "p' = of_int \<lfloor>r * 100 + 1 / 2\<rfloor> / 100"
  have "(2::rat) powi (- 6) \<le> 2 powi (e - 52)"
    using assms(1) by (intro power_int_increasing) simp_all
  then have u: "1 / 64 \<le> u"
    by (simp add: u_def power_int_minus_divide)
  have near: "\<bar>p' - r\<bar> \<le> 1 / 200"
  proof -
    have "of_int \<lfloor>r * 100 + 1 / 2\<rfloor> \<le> r * 100 + 1 / 2"
      and "r * 100 + 1 / 2 < of_int \<lfloor>r * 100 + 1 / 2\<rfloor> + 1"
      by linarith+
    then show ?thesis
      unfolding p'_def by linarith
  qed
  have "2 ^ 52 + 1 \<le> m"
    using assms(3) by simp
  then have "(of_int (2 ^ 52 + 1) :: rat) \<le> of_int m"
    by (simp only: of_int_le_iff)
  then have "of_int (2 ^ 52 + 1) * u \<le> of_int m * u"
    using u by (intro mult_right_mono) simp_all
  moreover have "of_int (2 ^ 52 + 1) * u = 2 powi e + u"
    by (simp add: algebra_simps two_powi_split [of e] u_def)
  ultimately have lo: "2 powi e + u \<le> r"
    by (simp only: r_def)
  have "m \<le> 2 ^ 53 - 1"
    using assms(4) by simp
  then have "(of_int m :: rat) \<le> of_int (2 ^ 53 - 1)"
    by (simp only: of_int_le_iff)
  then have "of_int m * u \<le> of_int (2 ^ 53 - 1) * u"
    using u by (intro mult_right_mono) simp_all
  moreover have "of_int (2 ^ 53 - 1) * u = 2 powi (e + 1) - u"
  proof -
    have "(2::rat) powi (e + 1) = 2 ^ 53 * u"
      by (simp add: two_powi_Suc two_powi_split [of e] u_def)
    then show ?thesis
      by (simp add: algebra_simps)
  qed
  ultimately have hi: "r \<le> 2 powi (e + 1) - u"
    by (simp only: r_def)
  show "(2::rat) powi e \<le> of_int \<lfloor>(of_int m :: rat) * 2 powi (e - 52) * 100 + 1 / 2\<rfloor> / 100"
    using lo near u unfolding p'_def r_def u_def by linarith
  show "of_int \<lfloor>(of_int m :: rat) * 2 powi (e - 52) * 100 + 1 / 2\<rfloor> / 100 < (2::rat) powi (e + 1)"
    using hi near u unfolding p'_def r_def u_def by linarith
  show "- 1022 \<le> e" and "e \<le> 1022"
    using assms(1,2) by simp_all
  have upos: "0 < u"
    using u by linarith
  have "\<bar>p' / u - of_int m\<bar> = \<bar>p' - r\<bar> / u"
    using upos by (simp add: r_def field_simps abs_divide [symmetric] flip: abs_mult)
  also have "\<dots> \<le> (1 / 200) / u"
    using near upos by (intro divide_right_mono) simp_all
  also have "\<dots> \<le> (1 / 200) / (1 / 64)"
    using u by (intro divide_left_mono) simp_all
  also have "\<dots> < 1 / 2"
    by simp
  finally show "\<bar>(of_int \<lfloor>(of_int m :: rat) * 2 powi (e - 52) * 100 + 1 / 2\<rfloor> :: rat) / 100 /
      2 powi (e - 52) - of_int m\<bar> < 1 / 2"
    unfolding p'_def r_def u_def .
qed

text \<open>
  Below \<open>2 ^ 46\<close> the binary64 values are at most \<open>1 / 128\<close> apart: the Number value of a
  numeral with two fraction digits is within \<open>1 / 256\<close> of it, and rounds back to it.
\<close>

lemma two_powi_less_imp: "(2::rat) powi a < 2 powi b \<Longrightarrow> a < b"
  by (metis not_less one_le_numeral power_int_increasing)

lemma round2_core:
  assumes "0 < N" and "N \<le> 10 ^ 23"
  shows "\<exists>r. 0 < r \<and>
           numberValue negative (of_int N / 100) = Fin (if negative then - r else r) \<and>
           (10 ^ 21 \<le> r \<or>
            numberValue negative (of_int \<lfloor>r * 100 + 1 / 2\<rfloor> / 100) =
              Fin (if negative then - r else r))"
proof -
  define p :: rat where "p = of_int N / 100"
  define e where "e = ilog2 p"
  define u :: rat where "u = 2 powi (e - 52)"
  define m where "m = round_half_even (p / u)"
  define r where "r = of_int m * u"
  have "1 \<le> N"
    using assms(1) by simp
  then have "(of_int 1 :: rat) \<le> of_int N"
    by (simp only: of_int_le_iff)
  then have p_lo: "1 / 100 \<le> p"
    by (simp add: p_def)
  have "(of_int N :: rat) \<le> of_int (10 ^ 23)"
    using assms(2) by (simp only: of_int_le_iff)
  then have p_hi: "p \<le> 10 ^ 21"
    by (simp add: p_def)
  have p_pos: "0 < p"
    using p_lo by linarith
  have b: "2 powi e \<le> p" "p < 2 powi (e + 1)"
    using ilog2_bounds [OF p_pos] by (simp_all add: e_def)
  have "(2::rat) powi (- 7) < 2 powi (e + 1)"
    using p_lo b(2) by (simp add: power_int_minus_divide)
  then have e_lo: "- 7 \<le> e"
    using two_powi_less_imp [of "- 7" "e + 1"] by simp
  have "(2::rat) powi e < 2 powi 70"
    using p_hi b(1) by simp
  then have e_hi: "e \<le> 69"
    using two_powi_less_imp [of e 70] by simp
  have u_pos: "0 < u"
    by (simp add: u_def)
  have nv: "numberValue negative p = Fin (if negative then - r else r)"
    using numberValue_normal [of e p negative] b e_lo e_hi
    by (simp add: r_def m_def u_def)
  have mb: "2 ^ 52 \<le> m" "m \<le> 2 ^ 53"
    using mantissa_bounds [OF b] by (simp_all add: m_def u_def)
  have "(of_int (2 ^ 52) :: rat) \<le> of_int m"
    using mb(1) by (simp only: of_int_le_iff)
  then have m_pos: "(0::rat) < of_int m"
    by simp
  have r_pos: "0 < r"
    using m_pos u_pos by (simp add: r_def)
  have fixed: "10 ^ 21 \<le> r \<or>
      numberValue negative (of_int \<lfloor>r * 100 + 1 / 2\<rfloor> / 100) =
        Fin (if negative then - r else r)"
  proof (cases "e \<le> 45")
    case True
    have "(2::rat) powi (e - 52) \<le> 2 powi (- 7)"
      using True by (intro power_int_increasing) simp_all
    then have u_hi: "u \<le> 1 / 128"
      by (simp add: u_def power_int_minus_divide)
    have "\<bar>of_int m - p / u\<bar> \<le> 1 / 2"
      unfolding m_def by (rule round_half_even_error)
    then have "\<bar>of_int m - p / u\<bar> * u \<le> 1 / 2 * u"
      using u_pos by (intro mult_right_mono) simp_all
    moreover have "\<bar>of_int m - p / u\<bar> * u = \<bar>r - p\<bar>"
    proof -
      have "(of_int m - p / u) * u = r - p"
        using u_pos by (simp add: r_def left_diff_distrib)
      then show ?thesis
        by (metis abs_mult abs_of_pos u_pos)
    qed
    ultimately have near: "\<bar>r - p\<bar> \<le> 1 / 256"
      using u_hi by linarith
    have "\<lfloor>r * 100 + 1 / 2\<rfloor> = N"
    proof (rule floor_unique)
      show "of_int N \<le> r * 100 + 1 / 2"
        using near unfolding p_def by linarith
      show "r * 100 + 1 / 2 < of_int N + 1"
        using near unfolding p_def by linarith
    qed
    then show ?thesis
      using nv by (simp add: p_def)
  next
    case False
    then have e46: "46 \<le> e"
      by simp
    consider "m = 2 ^ 52" | "m = 2 ^ 53" | "2 ^ 52 < m" "m < 2 ^ 53"
      using mb by linarith
    then show ?thesis
    proof cases
      case 1
      have "r = 2 powi e"
        by (simp add: r_def 1 u_def two_powi_split [of e])
      then show ?thesis
        using power_of_two_fixed [of e negative] e46 e_hi by simp
    next
      case 2
      have "r = 2 powi (e + 1)"
        by (simp add: r_def 2 u_def two_powi_Suc two_powi_split [of e])
      then show ?thesis
        using power_of_two_fixed [of "e + 1" negative] e46 e_hi by simp
    next
      case 3
      show ?thesis
        using interior_fixed [OF e46 _ 3, of negative] e_hi by (simp add: r_def u_def)
    qed
  qed
  show ?thesis
    using r_pos nv fixed unfolding p_def by blast
qed

text \<open>
  Rounding twice gives what rounding once gives, but for the sign of a zero: a negative
  \<open>x\<close> above \<open>- 1 / 200\<close> rounds to \<^verbatim>\<open>-0\<close> (its text is \<^verbatim>\<open>"-0.00"\<close>), and \<^verbatim>\<open>-0\<close> rounds to
  \<^verbatim>\<open>+0\<close> (its text is \<^verbatim>\<open>"0.00"\<close>).
\<close>

lemma floor_half: "\<lfloor>(1::rat) / 2\<rfloor> = 0"
  by (rule floor_unique) simp_all

lemma round2_twice:
  "Number (toFixed2 (Number (toFixed2 x))) =
     (if Number (toFixed2 x) = NegZero then Fin 0 else Number (toFixed2 x))"
proof (cases x)
  case (Fin q)
  show ?thesis
  proof (cases "10 ^ 21 \<le> \<bar>q\<bar>")
    case True
    then show ?thesis by (simp add: Fin)
  next
    case False
    define N where "N = \<lfloor>\<bar>q\<bar> * 100 + 1 / 2\<rfloor>"
    have first: "Number (toFixed2 x) = numberValue (q < 0) (of_int N / 100)"
      using False by (simp add: Fin N_def)
    have "0 \<le> N"
      by (simp add: N_def)
    have "\<bar>q\<bar> * 100 + 1 / 2 < of_int (10 ^ 23) + 1"
      using False by simp
    then have "N \<le> 10 ^ 23"
      unfolding N_def by (simp only: floor_le_iff)
    show ?thesis
    proof (cases "N = 0")
      case True
      then show ?thesis
        by (simp add: first numberValue_def floor_half)
    next
      case nz: False
      then have Npos: "0 < N"
        using \<open>0 \<le> N\<close> by simp
      obtain r where r: "0 < r"
        "numberValue (q < 0) (of_int N / 100) = Fin (if q < 0 then - r else r)"
        "10 ^ 21 \<le> r \<or>
         numberValue (q < 0) (of_int \<lfloor>r * 100 + 1 / 2\<rfloor> / 100) = Fin (if q < 0 then - r else r)"
        using round2_core [OF Npos \<open>N \<le> 10 ^ 23\<close>, of "q < 0"] by blast
      have second: "Number (toFixed2 x) = Fin (if q < 0 then - r else r)"
        using first r(2) by simp
      show ?thesis
      proof (cases "10 ^ 21 \<le> r")
        case True
        then show ?thesis
          using r(1) by (simp add: second)
      next
        case False
        then show ?thesis
          using r(1,3) by (cases "q < 0") (simp_all add: second)
      qed
    qed
  qed
qed (simp_all add: numberValue_def floor_half)

lemma round2_NaN: "(Number (toFixed2 x) = NaN) = (x = NaN)"
  by (cases x) (simp_all add: numberValue_def Let_def)

lemma round2_small_negative:
  assumes "- 1 / 200 < q" and "q < 0"
  shows "Number (toFixed2 (Fin q)) = NegZero"
proof -
  have "\<lfloor>\<bar>q\<bar> * 100 + 1 / 2\<rfloor> = 0"
    using assms by (intro floor_unique) simp_all
  moreover have "\<not> 10 ^ 21 \<le> \<bar>q\<bar>"
    using assms by simp
  ultimately show ?thesis
    using assms(2) by (simp add: numberValue_def)
qed

lemma round2_minus_zero:
  "Number (toFixed2 (Fin (- 1 / 1000))) = NegZero \<and> Number (toFixed2 NegZero) = Fin 0"
  using round2_small_negative [of "- 1 / 1000"] by (simp add: numberValue_def)

text \<open>
  C10. \<^verbatim>\<open>Number(x.toFixed(2))\<close> applied twice is the number \<^verbatim>\<open>Number(x.toFixed(2))\<close>
  applied once is, for every number \<open>x\<close>: \<^verbatim>\<open>NaN\<close>, the infinities, the two zeros and every
  other finite value (the theorem holds for every rational, so for every binary64
  value). The equality is that of the numbers denoted (\<open>sameValueZero\<close>). As values the
  two results are the same too, except when the first is \<^verbatim>\<open>-0\<close>: the second is then
  \<^verbatim>\<open>+0\<close>. Under \<^verbatim>\<open>===\<close> they are equal for every \<open>x\<close> but \<^verbatim>\<open>NaN\<close>, which equals nothing.
  \<^verbatim>\<open>formatNumber\<close> on a number is \<^verbatim>\<open>Number(x.toFixed(2))\<close>, once and twice.
\<close>

theorem formatNumber_idempotent:
  "sameValueZero (Number (toFixed2 (Number (toFixed2 x)))) (Number (toFixed2 x)) \<and>
   Number (toFixed2 (Number (toFixed2 x))) =
     (if Number (toFixed2 x) = NegZero then Fin 0 else Number (toFixed2 x)) \<and>
   strictEquals (Number (toFixed2 (Number (toFixed2 x)))) (Number (toFixed2 x)) = (x \<noteq> NaN) \<and>
   formatNumber (Num x) = Inr (Num (Number (toFixed2 x))) \<and>
   andThen (formatNumber (Num x)) formatNumber =
     Inr (Num (Number (toFixed2 (Number (toFixed2 x)))))"
  by (simp add: round2_twice round2_NaN sameValueZero_def strictEquals_def formatNumber_def
      andThen_def)

end
